theory Spec2Isabelle
  imports Complex_Main
begin

section \<open>Platform values: numbers as text, padding, dates, URI encoding\<close>

text \<open>
  The cards are TypeScript running in a browser.  Integral JavaScript numbers
  (tile addresses, frame indices, millisecond time values, delays) are modelled as
  \<^typ>\<open>int\<close>, projected coordinates as exact \<^typ>\<open>real\<close> numbers, strings as
  \<^typ>\<open>string\<close> read as the UTF-8 bytes of the text.  \<open>Math.floor\<close> is
  \<^const>\<open>floor\<close> and \<open>Math.round\<close> (ties towards plus infinity) is \<^const>\<open>round\<close>.
\<close>

definition digitChar :: "nat \<Rightarrow> char" where
  "digitChar d = ''0123456789ABCDEF'' ! d"

text \<open>\<open>String(n)\<close> for an integral number \<open>n\<close>.\<close>

fun showNat :: "nat \<Rightarrow> string" where
  "showNat n = (if n < 10 then [digitChar n] else showNat (n div 10) @ [digitChar (n mod 10)])"

declare showNat.simps [simp del]

definition showInt :: "int \<Rightarrow> string" where
  "showInt i = (if i < 0 then CHR ''-'' # showNat (nat (- i)) else showNat (nat i))"

text \<open>\<open>s.padStart(n, '0')\<close>.\<close>

definition padStart :: "nat \<Rightarrow> string \<Rightarrow> string" where
  "padStart n s = replicate (n - length s) CHR ''0'' @ s"

text \<open>
  A valid \<open>Date\<close> is its time value, the milliseconds since the epoch.  The UTC
  accessors follow the language definition: the day number is the floor of the
  time value over the milliseconds per day, and the civil date of a day number
  is computed in the proleptic Gregorian calendar, with years counted from
  1 March so that the leap day falls at the end of a year.
\<close>

type_synonym Date = int

definition msPerDay :: int where
  "msPerDay = 86400000"

definition civilFromDays :: "int \<Rightarrow> int \<times> int \<times> int" where
  "civilFromDays days =
    (let shifted = days + 719468;
         era = shifted div 146097;
         doe = shifted mod 146097;
         yoe = (doe - doe div 1460 + doe div 36524 - doe div 146096) div 365;
         doy = doe - (365 * yoe + yoe div 4 - yoe div 100);
         mp = (5 * doy + 2) div 153;
         d = doy - (153 * mp + 2) div 5 + 1;
         m = (if mp < 10 then mp + 3 else mp - 9);
         yr = yoe + era * 400 + (if m \<le> 2 then 1 else 0)
     in (yr, m, d))"

definition getUTCFullYear :: "Date \<Rightarrow> int" where
  "getUTCFullYear t = fst (civilFromDays (t div msPerDay))"

text \<open>Months are numbered from zero.\<close>

definition getUTCMonth :: "Date \<Rightarrow> int" where
  "getUTCMonth t = fst (snd (civilFromDays (t div msPerDay))) - 1"

definition getUTCDate :: "Date \<Rightarrow> int" where
  "getUTCDate t = snd (snd (civilFromDays (t div msPerDay)))"

definition getUTCHours :: "Date \<Rightarrow> int" where
  "getUTCHours t = (t div 3600000) mod 24"

definition getUTCMinutes :: "Date \<Rightarrow> int" where
  "getUTCMinutes t = (t div 60000) mod 60"

definition getUTCSeconds :: "Date \<Rightarrow> int" where
  "getUTCSeconds t = (t div 1000) mod 60"

definition getUTCMilliseconds :: "Date \<Rightarrow> int" where
  "getUTCMilliseconds t = t mod 1000"

text \<open>
  \<open>new Date(ms).toISOString()\<close>: a time value beyond 8.64e15 milliseconds is an
  invalid date and \<open>toISOString\<close> throws a \<open>RangeError\<close> (the result \<open>None\<close>);
  years outside 0..9999 are written with a sign and six digits.
\<close>

definition toISOString :: "int \<Rightarrow> string option" where
  "toISOString ms =
    (if \<bar>ms\<bar> > 8640000000000000 then None
     else let yr = getUTCFullYear ms;
              yearText = (if 0 \<le> yr \<and> yr \<le> 9999 then padStart 4 (showInt yr)
                          else (if yr < 0 then CHR ''-'' else CHR ''+'') # padStart 6 (showInt \<bar>yr\<bar>))
          in Some (yearText @ ''-'' @ padStart 2 (showInt (getUTCMonth ms + 1)) @ ''-''
               @ padStart 2 (showInt (getUTCDate ms)) @ ''T''
               @ padStart 2 (showInt (getUTCHours ms)) @ '':''
               @ padStart 2 (showInt (getUTCMinutes ms)) @ '':''
               @ padStart 2 (showInt (getUTCSeconds ms)) @ ''.''
               @ padStart 3 (showInt (getUTCMilliseconds ms)) @ ''Z''))"

text \<open>
  \<open>encodeURIComponent\<close>: letters, digits and \<open>- _ . ! ~ * ' ( )\<close> stay, every other
  byte of the UTF-8 text becomes \<open>%XX\<close> in upper-case hexadecimal.
\<close>

definition uriUnreserved :: "char \<Rightarrow> bool" where
  "uriUnreserved c =
    (c \<in> set ''ABCDEFGHIJKLMNOPQRSTUVWXYZabcdefghijklmnopqrstuvwxyz0123456789-_.!~*()''
     \<or> c = CHR 0x27)"

definition encodeURIComponent :: "string \<Rightarrow> string" where
  "encodeURIComponent s =
    concat (map (\<lambda>c. if uriUnreserved c then [c]
                      else [CHR ''%'', digitChar (of_char c div 16), digitChar (of_char c mod 16)]) s)"

section \<open>The BoM WMTS card (bom-radar-card.ts)\<close>

subsection \<open>Constants and the tile request\<close>

definition WMTS_KVP_BASE :: string where
  "WMTS_KVP_BASE = ''https://api.bom.gov.au/apikey/v1/mapping/timeseries/wmts''"

definition WMTS_LAYER :: string where
  "WMTS_LAYER = ''atm_surf_air_precip_reflectivity_dbz''"

definition WMTS_TILE_MATRIX_SET :: string where
  "WMTS_TILE_MATRIX_SET = ''GoogleMapsCompatible_BoM''"

definition EARTH_HALF_CIRCUMFERENCE :: real where
  "EARTH_HALF_CIRCUMFERENCE = 20037508.342789244"

record TileMatrix =
  originX :: real
  originY :: real
  cols :: int
  rows :: int

definition BOM_TILE_MATRICES :: "int \<Rightarrow> TileMatrix option" where
  "BOM_TILE_MATRICES zoom =
    (if zoom = 0 then Some \<lparr>originX = 11584952, originY = 34168990.685578, cols = 1, rows = 1\<rparr>
     else if zoom = 1 then Some \<lparr>originX = 11584952, originY = 14131482.342789, cols = 1, rows = 1\<rparr>
     else if zoom = 2 then Some \<lparr>originX = 11584952, originY = 4112728.171395, cols = 1, rows = 1\<rparr>
     else if zoom = 3 then Some \<lparr>originX = 11584952, originY = 4112728.171395, cols = 2, rows = 2\<rparr>
     else if zoom = 4 then Some \<lparr>originX = 11584952, originY = 1608039.628546, cols = 3, rows = 3\<rparr>
     else if zoom = 5 then Some \<lparr>originX = 11584952, originY = 355695.357122, cols = 6, rows = 5\<rparr>
     else if zoom = 6 then Some \<lparr>originX = 11584952, originY = -270476.778591, cols = 11, rows = 9\<rparr>
     else if zoom = 7 then Some \<lparr>originX = 11584952, originY = -583562.846447, cols = 22, rows = 17\<rparr>
     else if zoom = 8 then Some \<lparr>originX = 11584952, originY = -740105.880375, cols = 43, rows = 33\<rparr>
     else None)"

definition getTileSpan :: "int \<Rightarrow> real" where
  "getTileSpan zoom = (2 * EARTH_HALF_CIRCUMFERENCE) / power_int 2 zoom"

definition bomKvpUrl :: "int \<Rightarrow> int \<Rightarrow> int \<Rightarrow> string \<Rightarrow> string" where
  "bomKvpUrl zoom row col time =
     WMTS_KVP_BASE @ ''?SERVICE=WMTS&REQUEST=GetTile&VERSION=1.0.0''
     @ ''&LAYER='' @ WMTS_LAYER @ ''&STYLE=default&FORMAT=image/png''
     @ ''&TILEMATRIXSET='' @ WMTS_TILE_MATRIX_SET
     @ ''&TILEMATRIX='' @ showInt zoom @ ''&TILEROW='' @ showInt row @ ''&TILECOL='' @ showInt col
     @ ''&TIME='' @ encodeURIComponent time"

subsection \<open>The grid layer's tile factory\<close>

text \<open>The viewer's tile address (Leaflet's \<open>L.Coords\<close>).\<close>

record Coords =
  coords_x :: int
  coords_y :: int
  coords_z :: int

text \<open>
  One \<open>img\<close> child of the composite tile: the provider tile it requests (the
  \<open>TILEROW\<close> and \<open>TILECOL\<close> of its \<open>src\<close>), the \<open>src\<close> itself, and its \<open>left\<close> and
  \<open>top\<close> style in pixels.
\<close>

record BomImg =
  img_row :: int
  img_col :: int
  img_src :: string
  offsetX :: int
  offsetY :: int

text \<open>
  The body of \<open>createTile\<close> after the matrix lookup: the two nested \<open>for\<close> loops
  run over the clipped inclusive ranges, rows outside and columns inside, and
  append one \<open>img\<close> per provider tile.
\<close>

definition createTileImages :: "string \<Rightarrow> TileMatrix \<Rightarrow> Coords \<Rightarrow> BomImg list" where
  "createTileImages timestamp tm coords =
    (let tileSpan = getTileSpan (coords_z coords);
         leafMinX = - EARTH_HALF_CIRCUMFERENCE + real_of_int (coords_x coords) * tileSpan;
         leafMaxX = leafMinX + tileSpan;
         leafMaxY = EARTH_HALF_CIRCUMFERENCE - real_of_int (coords_y coords) * tileSpan;
         leafMinY = leafMaxY - tileSpan;
         firstCol = \<lfloor>(leafMinX - originX tm) / tileSpan\<rfloor>;
         lastCol = \<lfloor>(leafMaxX - originX tm - 0.01) / tileSpan\<rfloor>;
         firstRow = \<lfloor>(originY tm - leafMaxY) / tileSpan\<rfloor>;
         lastRow = \<lfloor>(originY tm - leafMinY - 0.01) / tileSpan\<rfloor>
     in concat (map (\<lambda>row.
          map (\<lambda>col.
            (let bomMinX = originX tm + real_of_int col * tileSpan;
                 bomMaxY = originY tm - real_of_int row * tileSpan
             in \<lparr>img_row = row, img_col = col,
                 img_src = bomKvpUrl (coords_z coords) row col timestamp,
                 offsetX = round (((bomMinX - leafMinX) / tileSpan) * 256),
                 offsetY = round (((leafMaxY - bomMaxY) / tileSpan) * 256)\<rparr>))
            [max 0 firstCol .. min (cols tm - 1) lastCol])
          [max 0 firstRow .. min (rows tm - 1) lastRow]))"

text \<open>A zoom without a matrix entry gives the empty tile.\<close>

definition createTile :: "string \<Rightarrow> Coords \<Rightarrow> BomImg list" where
  "createTile timestamp coords =
    (case BOM_TILE_MATRICES (coords_z coords) of
       None \<Rightarrow> []
     | Some tm \<Rightarrow> createTileImages timestamp tm coords)"

subsection \<open>Radar timestamps\<close>

text \<open>
  \<open>formatWmtsTimestamp\<close> writes the UTC fields of a date; the text it returns
  ends in a literal seconds field.
\<close>

definition formatWmtsTimestamp :: "Date \<Rightarrow> string" where
  "formatWmtsTimestamp date =
    (let yr = showInt (getUTCFullYear date);
         mo = padStart 2 (showInt (getUTCMonth date + 1));
         d = padStart 2 (showInt (getUTCDate date));
         h = padStart 2 (showInt (getUTCHours date));
         mi = padStart 2 (showInt (getUTCMinutes date))
     in yr @ ''-'' @ mo @ ''-'' @ d @ ''T'' @ h @ '':'' @ mi @ '':00Z'')"

text \<open>
  The timestamp computation of \<open>getRadarCapabilities\<close>, with the clock reading
  \<open>Date.now()\<close> as the argument \<open>nowMs\<close>: the latest publication instant, and the
  list of \<open>count\<close> instants going back from it, oldest first (each one is put at
  the front of the list by \<open>unshift\<close>).
\<close>

definition latestMs :: "int \<Rightarrow> int" where
  "latestMs nowMs =
    (let now = nowMs - 5 * 60 * 1000
     in (now div (5 * 60 * 1000)) * (5 * 60 * 1000))"

definition capabilityInstants :: "int \<Rightarrow> int \<Rightarrow> int list" where
  "capabilityInstants bom_frame_count nowMs =
    (let count = max bom_frame_count 12 + 4
     in rev (map (\<lambda>i. latestMs nowMs - i * 5 * 60 * 1000) [0 .. count - 1]))"

definition availableTimestamps :: "int \<Rightarrow> int \<Rightarrow> string list" where
  "availableTimestamps bom_frame_count nowMs =
     map formatWmtsTimestamp (capabilityInstants bom_frame_count nowMs)"

text \<open>\<open>generateTimestamps\<close>, the fallback when no list has been computed.\<close>

definition generateInstants :: "int \<Rightarrow> int \<Rightarrow> int list" where
  "generateInstants start_time bom_frame_count =
     map (\<lambda>i. start_time + i * 5 * 60 * 1000) [0 .. bom_frame_count - 1]"

definition generateTimestamps :: "int \<Rightarrow> int \<Rightarrow> string list" where
  "generateTimestamps start_time bom_frame_count =
     map formatWmtsTimestamp (generateInstants start_time bom_frame_count)"

subsection \<open>Playback and retry state of the WMTS card\<close>

text \<open>
  The remainder \<open>a % n\<close> of integral numbers truncates towards zero and takes the
  sign of \<open>a\<close>; with \<open>n = 0\<close> the result is \<open>NaN\<close>, which is kept apart.
\<close>

definition js_rem :: "int \<Rightarrow> int \<Rightarrow> int" where
  "js_rem a n = sgn a * (\<bar>a\<bar> mod \<bar>n\<bar>)"

text \<open>The field \<open>frame\<close>: an integral index, or \<open>NaN\<close> once the layer list was empty.\<close>

datatype frameindex = At int | NotANumber

text \<open>\<open>xs[i]\<close>, \<open>undefined\<close> outside the array.\<close>

definition at_index :: "'a list \<Rightarrow> frameindex \<Rightarrow> 'a option" where
  "at_index xs i =
    (case i of NotANumber \<Rightarrow> None
     | At k \<Rightarrow> if 0 \<le> k \<and> k < int (length xs) then Some (xs ! nat k) else None)"

text \<open>
  The fields of \<open>BomRadarCard\<close> that playback and retry read and write.
  \<open>bom_map\<close> tells whether \<open>this.map\<close> is set; \<open>radarTileLayers\<close> maps a layer id
  to the opacity of its grid layer; \<open>bom_frameTimer\<close> is the period of the armed
  interval timer; \<open>pendingTimeouts\<close> lists the delays of the capability timeouts
  armed so far (they are never cancelled).  The progress bar and the timestamp
  text of the page are not part of the model.
\<close>

record BomRadarCard =
  bom_map :: bool
  bom_frame_count :: int
  bom_frame_delay :: int
  bom_restart_delay :: int
  mapLayers :: "string list"
  radarTime :: "string list"
  radarTileLayers :: "string \<rightharpoonup> real"
  bom_frame :: frameindex
  bom_frameTimer :: "int option"
  overlayTransparency :: real
  capabilitiesRetryCount :: nat
  pendingTimeouts :: "int list"

definition MAX_RETRY_COUNT :: nat where
  "MAX_RETRY_COUNT = 5"

definition scheduleCapabilitiesRetry :: "BomRadarCard \<Rightarrow> BomRadarCard" where
  "scheduleCapabilitiesRetry s =
    (let delay = min (5000 * 2 ^ capabilitiesRetryCount s) 60000
     in s\<lparr>capabilitiesRetryCount := min (capabilitiesRetryCount s + 1) MAX_RETRY_COUNT,
          pendingTimeouts := pendingTimeouts s @ [delay]\<rparr>)"

definition bom_getOverlayOpacity :: "BomRadarCard \<Rightarrow> real" where
  "bom_getOverlayOpacity s = max 0 (min 1 (1 - overlayTransparency s / 100))"

text \<open>\<open>radarTileLayers.get(id)?.setOpacity(v)\<close> for an id that may be \<open>undefined\<close>.\<close>

definition setLayerOpacity :: "string option \<Rightarrow> real \<Rightarrow> (string \<rightharpoonup> real) \<Rightarrow> (string \<rightharpoonup> real)" where
  "setLayerOpacity layerId v layers =
    (case layerId of None \<Rightarrow> layers
     | Some l \<Rightarrow> (case layers l of None \<Rightarrow> layers | Some _ \<Rightarrow> layers(l \<mapsto> v)))"

definition bom_removeRadarLayer :: "string \<Rightarrow> BomRadarCard \<Rightarrow> BomRadarCard" where
  "bom_removeRadarLayer layerId s =
    (case radarTileLayers s layerId of
       None \<Rightarrow> s
     | Some _ \<Rightarrow> if bom_map s then s\<lparr>radarTileLayers := (radarTileLayers s)(layerId := None)\<rparr> else s)"

text \<open>
  \<open>changeRadarFrame\<close>, the callback of the interval timer; the same code stands
  in the older raster card of bom-raster-radar-card.ts.  When the list holds
  more layers than \<open>frame_count\<close> the oldest one is dropped and the index is
  taken back by one; the interval is then re-armed with one of the two delays.
\<close>

definition changeRadarFrame :: "BomRadarCard \<Rightarrow> BomRadarCard" where
  "changeRadarFrame s =
    (if \<not> bom_map s then s
     else
       let extra = int (length (mapLayers s)) > bom_frame_count s;
           next = (case bom_frame s of
                     NotANumber \<Rightarrow> NotANumber
                   | At f \<Rightarrow> if length (mapLayers s) = 0 then NotANumber
                             else At (js_rem (f + 1) (int (length (mapLayers s)))));
           currentLayer = at_index (mapLayers s) (bom_frame s);
           nextLayer = at_index (mapLayers s) next;
           s1 = s\<lparr>radarTileLayers :=
                     setLayerOpacity nextLayer (bom_getOverlayOpacity s)
                       (setLayerOpacity currentLayer 0 (radarTileLayers s))\<rparr>;
           s2 = (if extra
                 then (case mapLayers s1 of
                         [] \<Rightarrow> s1\<lparr>radarTime := tl (radarTime s1)\<rparr>
                       | oldLayer # rest \<Rightarrow>
                           bom_removeRadarLayer oldLayer
                             (s1\<lparr>mapLayers := rest, radarTime := tl (radarTime s1)\<rparr>))
                 else s1);
           next' = (if extra then (case next of NotANumber \<Rightarrow> NotANumber | At k \<Rightarrow> At (k - 1))
                    else next)
       in s2\<lparr>bom_frame := next',
              bom_frameTimer :=
                Some (if next' = At (bom_frame_count s - 1) then bom_restart_delay s
                      else bom_frame_delay s)\<rparr>)"

section \<open>The RainViewer source (radar-source.ts)\<close>

definition RAINVIEWER_DEFAULT_HOST :: string where
  "RAINVIEWER_DEFAULT_HOST = ''https://tilecache.rainviewer.com''"

record RainviewerFrame =
  rv_time :: int
  rv_path :: string

text \<open>The manifest: \<open>host\<close> and \<open>radar.past\<close> may each be absent, and so may \<open>radar\<close>.\<close>

record RainviewerApiResponse =
  api_host :: "string option"
  api_radar :: "RainviewerFrame list option option"

record RadarFrame =
  rf_id :: string
  rf_timestampIso :: string
  rf_timeMs :: int
  rf_path :: string

record RadarSnapshot =
  snap_host :: string
  snap_frames :: "RadarFrame list"
  snap_latestTimeMs :: int

definition buildRadarTileUrl :: "string \<Rightarrow> string \<Rightarrow> string" where
  "buildRadarTileUrl host path = host @ path @ ''/256/{z}/{x}/{y}/2/1_0.png''"

text \<open>
  What one call of the fetcher can do: the promise rejects, or there is a
  response with its \<open>ok\<close> flag, its status, and a body that either parses to a
  manifest or does not.
\<close>

datatype FetchOutcome =
  Rejected
| Response bool int "RainviewerApiResponse option"

text \<open>Every way in which \<open>fetchRadarSnapshot\<close> throws.\<close>

datatype FetchError =
  FetchRejected
| BadStatus int
| BadBody
| NoFrames
| InvalidTime

text \<open>\<open>rawFrames.map\<close>: the first frame whose time is no valid date throws.\<close>

fun toRadarFrames :: "RainviewerFrame list \<Rightarrow> RadarFrame list option" where
  "toRadarFrames [] = Some []"
| "toRadarFrames (frame # others) =
    (let timeMs = rv_time frame * 1000
     in case toISOString timeMs of
          None \<Rightarrow> None
        | Some timestampIso \<Rightarrow>
            (case toRadarFrames others of
               None \<Rightarrow> None
             | Some rest \<Rightarrow>
                 Some (\<lparr>rf_id = timestampIso, rf_timestampIso = timestampIso,
                         rf_timeMs = timeMs, rf_path = rv_path frame\<rparr> # rest)))"

definition fetchRadarSnapshot :: "FetchOutcome \<Rightarrow> FetchError + RadarSnapshot" where
  "fetchRadarSnapshot outcome =
    (case outcome of
       Rejected \<Rightarrow> Inl FetchRejected
     | Response ok status body \<Rightarrow>
         if \<not> ok then Inl (BadStatus status)
         else (case body of
            None \<Rightarrow> Inl BadBody
          | Some data \<Rightarrow>
              let host = (case api_host data of Some h \<Rightarrow> h | None \<Rightarrow> RAINVIEWER_DEFAULT_HOST);
                  rawFrames = (case api_radar data of
                                 Some (Some past) \<Rightarrow> past
                               | _ \<Rightarrow> [])
              in if length rawFrames = 0 then Inl NoFrames
                 else (case toRadarFrames rawFrames of
                         None \<Rightarrow> Inl InvalidTime
                       | Some frames \<Rightarrow>
                           Inr \<lparr>snap_host = host, snap_frames = frames,
                                snap_latestTimeMs = rf_timeMs (last frames)\<rparr>)))"

text \<open>
  The two delay helpers.  A retry count starts at zero and only grows by one,
  so it is a \<^typ>\<open>nat\<close>.
\<close>

definition getNextSnapshotDelayMs :: "int \<Rightarrow> int \<Rightarrow> int" where
  "getNextSnapshotDelayMs latestTimeMs nowMs =
     (let nextAvailableTime = latestTimeMs + 10 * 60 * 1000 + 15 * 1000
      in max (nextAvailableTime - nowMs) 5000)"

definition getRetryDelayMs :: "nat \<Rightarrow> int" where
  "getRetryDelayMs retryCount = min (5000 * 2 ^ retryCount) 60000"

section \<open>Configuration (config.ts)\<close>

definition DEFAULT_FRAME_COUNT :: int where "DEFAULT_FRAME_COUNT = 7"
definition DEFAULT_FRAME_DELAY :: int where "DEFAULT_FRAME_DELAY = 250"
definition DEFAULT_RESTART_DELAY :: int where "DEFAULT_RESTART_DELAY = 1000"
definition DEFAULT_ZOOM_LEVEL :: int where "DEFAULT_ZOOM_LEVEL = 8"

datatype MapStyle = Light | Dark

text \<open>A JavaScript number: a finite one, \<open>NaN\<close>, or one of the infinities.\<close>

datatype jsnumber = Finite real | NaN | PosInfinity | NegInfinity

text \<open>
  A value of a configuration object as a YAML or JSON document gives it: absent,
  \<open>null\<close>, a boolean, a number, a string, or an array or object.  Of an array or
  object only the string that its conversion to a primitive yields matters
  here (\<open>""\<close> for \<open>[]\<close>, \<open>"5"\<close> for \<open>[5]\<close>, \<open>"[object Object]"\<close> for \<open>{}\<close>).
\<close>

datatype jsvalue =
  Undefined
| Null
| Boolean bool
| Number jsnumber
| Text string
| Structured string

text \<open>
  The argument of \<open>normalizeConfig\<close>: every field may hold any value, since the
  function reads them as \<open>unknown\<close>.
\<close>

record PartialConfig =
  p_entity :: jsvalue
  p_card_title :: jsvalue
  p_hide_header :: jsvalue
  p_map_style :: jsvalue
  p_zoom_level :: jsvalue
  p_show_marker :: jsvalue
  p_show_zoom :: jsvalue
  p_show_scale :: jsvalue
  p_show_recenter :: jsvalue
  p_frame_count :: jsvalue
  p_frame_delay :: jsvalue
  p_restart_delay :: jsvalue
  p_overlay_transparency :: jsvalue

text \<open>
  The card configuration.  The optional fields keep their option type; the
  rounded numbers are integers.
\<close>

record BomRasterRadarCardConfig =
  card_type :: string
  entity :: string
  card_title :: "string option"
  hide_header :: "bool option"
  map_style :: "MapStyle option"
  zoom_level :: "int option"
  show_marker :: "bool option"
  show_zoom :: "bool option"
  show_scale :: "bool option"
  show_recenter :: "bool option"
  frame_count :: "int option"
  frame_delay :: "int option"
  restart_delay :: "int option"
  overlay_transparency :: "real option"

record NormalizeConfigOptions =
  requireEntity :: "bool option"

datatype ConfigError = RequiredConfigurationMissing

text \<open>
  \<open>Number(value)\<close>: \<open>undefined\<close> is \<open>NaN\<close>, \<open>null\<close> is 0, \<open>true\<close> is 1 and \<open>false\<close> is 0,
  a number is itself, and a string, or the string of an array or object, is
  read by the language's conversion of strings to numbers, which is the
  argument \<open>stringToNumber\<close>.
\<close>

definition toNumber :: "(string \<Rightarrow> jsnumber) \<Rightarrow> jsvalue \<Rightarrow> jsnumber" where
  "toNumber stringToNumber v =
    (case v of
       Undefined \<Rightarrow> NaN
     | Null \<Rightarrow> Finite 0
     | Boolean b \<Rightarrow> Finite (if b then 1 else 0)
     | Number n \<Rightarrow> n
     | Text s \<Rightarrow> stringToNumber s
     | Structured s \<Rightarrow> stringToNumber s)"

definition toFiniteNumber :: "(string \<Rightarrow> jsnumber) \<Rightarrow> jsvalue \<Rightarrow> real option" where
  "toFiniteNumber stringToNumber v =
    (let numeric = toNumber stringToNumber v
     in case numeric of Finite r \<Rightarrow> Some r | _ \<Rightarrow> None)"

definition clamp :: "'a::linorder \<Rightarrow> 'a \<Rightarrow> 'a \<Rightarrow> 'a" where
  "clamp v lo hi = min hi (max lo v)"

definition sanitizeMapStyle :: "jsvalue \<Rightarrow> MapStyle" where
  "sanitizeMapStyle v = (if v = Text ''Dark'' then Dark else Light)"

text \<open>
  The white space and line terminators that \<open>String.prototype.trim\<close> removes, as
  the bytes of their UTF-8 encoding: U+0009 to U+000D, U+0020, U+00A0, U+1680,
  U+2000 to U+200A, U+2028, U+2029, U+202F, U+205F, U+3000 and U+FEFF.
\<close>

definition whiteSpace :: "string list" where
  "whiteSpace =
    [[CHR 0x09], [CHR 0x0A], [CHR 0x0B], [CHR 0x0C], [CHR 0x0D], [CHR 0x20],
     [CHR 0xC2, CHR 0xA0],
     [CHR 0xE1, CHR 0x9A, CHR 0x80],
     [CHR 0xE2, CHR 0x80, CHR 0x80], [CHR 0xE2, CHR 0x80, CHR 0x81], [CHR 0xE2, CHR 0x80, CHR 0x82],
     [CHR 0xE2, CHR 0x80, CHR 0x83], [CHR 0xE2, CHR 0x80, CHR 0x84], [CHR 0xE2, CHR 0x80, CHR 0x85],
     [CHR 0xE2, CHR 0x80, CHR 0x86], [CHR 0xE2, CHR 0x80, CHR 0x87], [CHR 0xE2, CHR 0x80, CHR 0x88],
     [CHR 0xE2, CHR 0x80, CHR 0x89], [CHR 0xE2, CHR 0x80, CHR 0x8A],
     [CHR 0xE2, CHR 0x80, CHR 0xA8], [CHR 0xE2, CHR 0x80, CHR 0xA9], [CHR 0xE2, CHR 0x80, CHR 0xAF],
     [CHR 0xE2, CHR 0x81, CHR 0x9F],
     [CHR 0xE3, CHR 0x80, CHR 0x80],
     [CHR 0xEF, CHR 0xBB, CHR 0xBF]]"

text \<open>The number of bytes of the sequence of \<open>seqs\<close> that \<open>s\<close> begins with, or 0.\<close>

definition leadingLength :: "string list \<Rightarrow> string \<Rightarrow> nat" where
  "leadingLength seqs s =
    (case List.find (\<lambda>w. take (length w) s = w) seqs of
       None \<Rightarrow> 0
     | Some w \<Rightarrow> length w)"

function stripLeading :: "string list \<Rightarrow> string \<Rightarrow> string" where
  "stripLeading seqs s =
    (if leadingLength seqs s = 0 then s
     else stripLeading seqs (drop (leadingLength seqs s) s))"
  by pat_completeness auto

termination stripLeading
proof (relation "measure (\<lambda>(seqs, s). length s)")
  show "wf (measure (\<lambda>(seqs, s). length s))"
    by simp
next
  fix seqs :: "string list" and s :: string
  assume n: "leadingLength seqs s \<noteq> 0"
  then obtain w where "take (length w) s = w" and "length w \<noteq> 0"
    by (auto simp: leadingLength_def find_Some_iff split: option.splits)
  then have "s \<noteq> []" by auto
  with n show "((seqs, drop (leadingLength seqs s) s), (seqs, s)) \<in> measure (\<lambda>(seqs, s). length s)"
    by simp
qed

declare stripLeading.simps [simp del]

text \<open>\<open>trim\<close>: white space goes from the front, then from the back.\<close>

definition trim :: "string \<Rightarrow> string" where
  "trim s = rev (stripLeading (map rev whiteSpace) (rev (stripLeading whiteSpace s)))"

definition sanitizeEntity :: "jsvalue \<Rightarrow> string" where
  "sanitizeEntity v = (case v of Text s \<Rightarrow> trim s | _ \<Rightarrow> [])"

text \<open>
  \<open>normalizeConfig\<close>; the constant \<open>CARD_TYPE\<close> of \<open>const.ts\<close> is an argument.
\<close>

definition normalizeConfig ::
  "string \<Rightarrow> (string \<Rightarrow> jsnumber) \<Rightarrow> PartialConfig \<Rightarrow> NormalizeConfigOptions
     \<Rightarrow> ConfigError + BomRasterRadarCardConfig" where
  "normalizeConfig CARD_TYPE stringToNumber config options =
    (let entity' = sanitizeEntity (p_entity config)
     in if requireEntity options = Some True \<and> length entity' = 0
        then Inl RequiredConfigurationMissing
        else
          let zoom = toFiniteNumber stringToNumber (p_zoom_level config);
              frameCount = toFiniteNumber stringToNumber (p_frame_count config);
              frameDelay = toFiniteNumber stringToNumber (p_frame_delay config);
              restartDelay = toFiniteNumber stringToNumber (p_restart_delay config);
              overlayTransparency' = toFiniteNumber stringToNumber (p_overlay_transparency config)
          in Inr \<lparr>
            card_type = CARD_TYPE,
            entity = entity',
            card_title = (case p_card_title config of
                            Text t \<Rightarrow> if length (trim t) > 0 then Some t else None
                          | _ \<Rightarrow> None),
            hide_header = Some (p_hide_header config = Boolean True),
            map_style = Some (sanitizeMapStyle (p_map_style config)),
            zoom_level = Some (case zoom of Some v \<Rightarrow> clamp (round v) 3 10 | None \<Rightarrow> DEFAULT_ZOOM_LEVEL),
            show_marker = Some (p_show_marker config \<noteq> Boolean False),
            show_zoom = Some (p_show_zoom config \<noteq> Boolean False),
            show_scale = Some (p_show_scale config \<noteq> Boolean False),
            show_recenter = Some (p_show_recenter config \<noteq> Boolean False),
            frame_count = Some (case frameCount of Some v \<Rightarrow> clamp (round v) 1 24 | None \<Rightarrow> DEFAULT_FRAME_COUNT),
            frame_delay = Some (case frameDelay of Some v \<Rightarrow> clamp (round v) 100 5000 | None \<Rightarrow> DEFAULT_FRAME_DELAY),
            restart_delay = Some (case restartDelay of Some v \<Rightarrow> clamp (round v) 100 10000 | None \<Rightarrow> DEFAULT_RESTART_DELAY),
            overlay_transparency = Some (case overlayTransparency' of Some v \<Rightarrow> clamp v 0 90 | None \<Rightarrow> 0)\<rparr>)"

section \<open>The raster card (class BomRasterRadarCard)\<close>

subsection \<open>The map controller's radar layers (map-controller.ts)\<close>

record RadarLayer =
  tileUrl :: string
  opacity :: real

text \<open>Of the controller only \<open>radarTileLayers\<close> matters here, a map from layer id to layer.\<close>

type_synonym MapController = "string \<rightharpoonup> RadarLayer"

definition setRadarLayer :: "string \<Rightarrow> string \<Rightarrow> MapController \<Rightarrow> MapController" where
  "setRadarLayer layerId url mc =
    (case mc layerId of
       Some _ \<Rightarrow> mc
     | None \<Rightarrow> mc(layerId \<mapsto> \<lparr>tileUrl = url, opacity = 0\<rparr>))"

definition removeRadarLayer :: "string \<Rightarrow> MapController \<Rightarrow> MapController" where
  "removeRadarLayer layerId mc =
    (case mc layerId of
       None \<Rightarrow> mc
     | Some _ \<Rightarrow> mc(layerId := None))"

definition setRadarLayerOpacity :: "string \<Rightarrow> real \<Rightarrow> MapController \<Rightarrow> MapController" where
  "setRadarLayerOpacity layerId v mc =
    (case mc layerId of
       None \<Rightarrow> mc
     | Some layer \<Rightarrow> mc(layerId \<mapsto> layer\<lparr>opacity := v\<rparr>))"

definition clearRadarLayers :: "string list \<Rightarrow> MapController \<Rightarrow> MapController" where
  "clearRadarLayers ids mc = fold removeRadarLayer ids mc"

subsection \<open>The card's state\<close>

text \<open>
  An armed snapshot timer: its delay, and whether it will poll or retry.  The
  frame timer always calls \<open>advanceFrame\<close>, so its delay is all there is to it.
\<close>

datatype SnapshotTimer = NextSnapshot int | Retry int

text \<open>
  The fields of the card that the frame window, playback and polling use.  The
  footer label and the progress percentage written by \<open>applyVisibleFrame\<close> are
  presentation and not part of the model.
\<close>

record Card =
  card_config :: "BomRasterRadarCardConfig option"
  mapController :: "MapController option"
  snapshotTimer :: "SnapshotTimer option"
  frameTimer :: "int option"
  retryCount :: nat
  radarHost :: string
  frameIndex :: int
  layerIds :: "string list"
  radarFrames :: "RadarFrame list"

text \<open>\<open>xs.findIndex(p)\<close>: the first index whose element satisfies \<open>p\<close>, or \<open>-1\<close>.\<close>

fun findIndex :: "('a \<Rightarrow> bool) \<Rightarrow> 'a list \<Rightarrow> int" where
  "findIndex p [] = - 1"
| "findIndex p (v # vs) =
    (if p v then 0
     else (let r = findIndex p vs in if r < 0 then - 1 else r + 1))"

text \<open>\<open>xs.slice(start)\<close> for an integral \<open>start\<close>; a negative one counts from the end.\<close>

definition slice :: "int \<Rightarrow> 'a list \<Rightarrow> 'a list" where
  "slice start xs =
    (if start < 0 then drop (nat (max (int (length xs) + start) 0)) xs
     else drop (nat start) xs)"

definition addFrame :: "RadarFrame \<Rightarrow> Card \<Rightarrow> Card" where
  "addFrame frame s =
    (case mapController s of
       None \<Rightarrow> s
     | Some mc \<Rightarrow>
         s\<lparr>radarFrames := radarFrames s @ [frame],
           layerIds := layerIds s @ [rf_id frame],
           mapController :=
             Some (setRadarLayer (rf_id frame) (buildRadarTileUrl (radarHost s) (rf_path frame)) mc)\<rparr>)"

definition replaceFrames :: "RadarFrame list \<Rightarrow> Card \<Rightarrow> Card" where
  "replaceFrames frames s =
    (case mapController s of
       None \<Rightarrow> s
     | Some mc \<Rightarrow>
         let s1 = s\<lparr>mapController := Some (clearRadarLayers (layerIds s) mc),
                    layerIds := [], radarFrames := []\<rparr>;
             s2 = fold addFrame frames s1
         in s2\<lparr>frameIndex :=
                 (if length (radarFrames s2) > 0 then int (length (radarFrames s2)) - 1 else 0)\<rparr>)"

text \<open>
  One pass of the eviction loop of \<open>mergeNewFrames\<close>: both arrays are shifted,
  the layer of a removed non-empty id is taken off the map, and the index steps
  back when a frame was removed and the index is positive.
\<close>

definition evictOne :: "Card \<Rightarrow> Card" where
  "evictOne s =
    (let removed = (case radarFrames s of [] \<Rightarrow> None | f # _ \<Rightarrow> Some f);
         removedLayerId = (case layerIds s of [] \<Rightarrow> None | l # _ \<Rightarrow> Some l);
         s1 = s\<lparr>radarFrames := tl (radarFrames s), layerIds := tl (layerIds s)\<rparr>;
         s2 = (case removedLayerId of
                 None \<Rightarrow> s1
               | Some l \<Rightarrow>
                   if l \<noteq> [] then
                     (case mapController s1 of
                        None \<Rightarrow> s1
                      | Some mc \<Rightarrow> s1\<lparr>mapController := Some (removeRadarLayer l mc)\<rparr>)
                   else s1)
     in if removed \<noteq> None \<and> frameIndex s2 > 0 then s2\<lparr>frameIndex := frameIndex s2 - 1\<rparr> else s2)"

text \<open>
  The loop \<open>while (this.radarFrames.length > frameCount)\<close>.  With an empty array
  and a negative \<open>frameCount\<close> a pass changes nothing that the test reads, and the
  loop never ends: the result \<open>None\<close>.
\<close>

function evictFrames :: "int \<Rightarrow> Card \<Rightarrow> Card option" where
  "evictFrames frameCount s =
    (if int (length (radarFrames s)) > frameCount
     then (if radarFrames s = [] then None else evictFrames frameCount (evictOne s))
     else Some s)"
  by pat_completeness auto

termination evictFrames
proof (relation "measure (\<lambda>(frameCount, s). length (radarFrames s))")
  show "wf (measure (\<lambda>(frameCount, s). length (radarFrames s)))"
    by simp
next
  fix frameCount :: int and s :: Card
  assume "radarFrames s \<noteq> []"
  then show "((frameCount, evictOne s), (frameCount, s))
      \<in> measure (\<lambda>(frameCount, s). length (radarFrames s))"
    by (cases "radarFrames s")
       (simp_all add: evictOne_def Let_def split: option.splits list.splits)
qed

declare evictFrames.simps [simp del]

definition mergeNewFrames :: "RadarFrame list \<Rightarrow> int \<Rightarrow> Card \<Rightarrow> Card option" where
  "mergeNewFrames allFrames frameCount s =
    (let latestKnownId = (if length (radarFrames s) > 0 then Some (rf_id (last (radarFrames s))) else None);
         latestKnownIndex = (case latestKnownId of
                               Some known \<Rightarrow> findIndex (\<lambda>frame. rf_id frame = known) allFrames
                             | None \<Rightarrow> - 1);
         framesToAdd = (if latestKnownIndex \<ge> 0 then slice (latestKnownIndex + 1) allFrames
                        else slice (max (int (length allFrames) - frameCount) 0) allFrames)
     in if length framesToAdd = 0 then Some s
        else (case evictFrames frameCount (fold addFrame framesToAdd s) of
                None \<Rightarrow> None
              | Some s' \<Rightarrow>
                  Some (s'\<lparr>frameIndex :=
                             (if length (radarFrames s') > 0 then int (length (radarFrames s')) - 1
                              else 0)\<rparr>)))"

definition getOverlayOpacity :: "Card \<Rightarrow> real" where
  "getOverlayOpacity s =
    (let transparency = (case card_config s of
                           None \<Rightarrow> 0
                         | Some c \<Rightarrow> (case overlay_transparency c of Some t \<Rightarrow> t | None \<Rightarrow> 0));
         opacity' = 1 - transparency / 100
     in min 1 (max 0 opacity'))"

definition applyVisibleFrame :: "Card \<Rightarrow> Card" where
  "applyVisibleFrame s =
    (case mapController s of
       None \<Rightarrow> s
     | Some mc \<Rightarrow>
         let overlayOpacity = getOverlayOpacity s
         in s\<lparr>mapController :=
                Some (fold (\<lambda>(layerId, layerIndex).
                              setRadarLayerOpacity layerId
                                (if int layerIndex = frameIndex s then overlayOpacity else 0))
                        (zip (layerIds s) [0 ..< length (layerIds s)]) mc)\<rparr>)"

definition scheduleNextFrame :: "int \<Rightarrow> Card \<Rightarrow> Card" where
  "scheduleNextFrame delayMs s =
    (let s1 = s\<lparr>frameTimer := None\<rparr>
     in if card_config s1 = None \<or> length (radarFrames s1) \<le> 1 then s1
        else s1\<lparr>frameTimer := Some delayMs\<rparr>)"

text \<open>\<open>advanceFrame\<close>, the callback of the frame timer.\<close>

definition advanceFrame :: "Card \<Rightarrow> Card" where
  "advanceFrame s =
    (case card_config s of
       None \<Rightarrow> s
     | Some c \<Rightarrow>
         if length (radarFrames s) = 0 then s
         else
           let s1 = applyVisibleFrame
                      (s\<lparr>frameIndex := js_rem (frameIndex s + 1) (int (length (radarFrames s)))\<rparr>);
               isLastFrame = (frameIndex s1 = int (length (radarFrames s1)) - 1);
               nextDelay = (if isLastFrame
                            then (case restart_delay c of Some d \<Rightarrow> d | None \<Rightarrow> 1000)
                            else (case frame_delay c of Some d \<Rightarrow> d | None \<Rightarrow> 250))
           in scheduleNextFrame nextDelay s1)"

text \<open>The clock reading \<open>Date.now()\<close> is the argument \<open>nowMs\<close>.\<close>

definition scheduleNextSnapshot :: "int \<Rightarrow> int \<Rightarrow> Card \<Rightarrow> Card" where
  "scheduleNextSnapshot latestTimeMs nowMs s =
    (let delay = getNextSnapshotDelayMs latestTimeMs nowMs
     in s\<lparr>snapshotTimer := Some (NextSnapshot delay)\<rparr>)"

definition scheduleRetry :: "Card \<Rightarrow> Card" where
  "scheduleRetry s =
    (let delay = getRetryDelayMs (retryCount s)
     in s\<lparr>retryCount := retryCount s + 1, snapshotTimer := Some (Retry delay)\<rparr>)"

text \<open>
  One poll, taken as a single step: the outcome of the fetch is an argument,
  and every throw inside the \<open>try\<close> block ends in \<open>scheduleRetry\<close>.  The result is
  \<open>None\<close> only when the eviction loop does not end.
\<close>

definition refreshRadarSnapshot :: "bool \<Rightarrow> FetchOutcome \<Rightarrow> int \<Rightarrow> Card \<Rightarrow> Card option" where
  "refreshRadarSnapshot resetFrames outcome nowMs s =
    (case card_config s of
       None \<Rightarrow> Some s
     | Some c \<Rightarrow>
         if mapController s = None then Some s
         else (case fetchRadarSnapshot outcome of
            Inl err \<Rightarrow> Some (scheduleRetry s)
          | Inr snapshot \<Rightarrow>
              let s1 = s\<lparr>retryCount := 0, radarHost := snap_host snapshot\<rparr>;
                  capacity = (case frame_count c of Some n \<Rightarrow> n | None \<Rightarrow> 7);
                  merged = (if resetFrames \<or> length (radarFrames s1) = 0
                            then Some (replaceFrames (slice (- capacity) (snap_frames snapshot)) s1)
                            else mergeNewFrames (snap_frames snapshot) capacity s1)
              in (case merged of
                    None \<Rightarrow> None
                  | Some s2 \<Rightarrow>
                      Some (scheduleNextFrame (case restart_delay c of Some d \<Rightarrow> d | None \<Rightarrow> 1000)
                              (scheduleNextSnapshot (snap_latestTimeMs snapshot) nowMs
                                 (applyVisibleFrame s2))))))"

section \<open>Sample states\<close>

text \<open>
  Three consecutive RainViewer frames as \<open>fetchRadarSnapshot\<close> builds them, a
  normalized configuration with a capacity of three frames, and a card whose
  window holds the first two or all three of the frames.
\<close>

definition frame0820 :: RadarFrame where
  "frame0820 = \<lparr>rf_id = ''2026-02-15T08:20:00.000Z'', rf_timestampIso = ''2026-02-15T08:20:00.000Z'',
      rf_timeMs = 1771143600000, rf_path = ''/v2/radar/1771143600''\<rparr>"

definition frame0830 :: RadarFrame where
  "frame0830 = \<lparr>rf_id = ''2026-02-15T08:30:00.000Z'', rf_timestampIso = ''2026-02-15T08:30:00.000Z'',
      rf_timeMs = 1771144200000, rf_path = ''/v2/radar/1771144200''\<rparr>"

definition frame0840 :: RadarFrame where
  "frame0840 = \<lparr>rf_id = ''2026-02-15T08:40:00.000Z'', rf_timestampIso = ''2026-02-15T08:40:00.000Z'',
      rf_timeMs = 1771144800000, rf_path = ''/v2/radar/1771144800''\<rparr>"

text \<open>A second manifest entry for 08:30, with the same time and another path.\<close>

definition frame0830again :: RadarFrame where
  "frame0830again = \<lparr>rf_id = ''2026-02-15T08:30:00.000Z'', rf_timestampIso = ''2026-02-15T08:30:00.000Z'',
      rf_timeMs = 1771144200000, rf_path = ''/v2/radar/1771144200_1''\<rparr>"

definition sampleConfig :: BomRasterRadarCardConfig where
  "sampleConfig = \<lparr>card_type = ''custom:bom-raster-radar-card'', entity = ''person.scott'',
      card_title = None, hide_header = Some False, map_style = Some Light, zoom_level = Some 8,
      show_marker = Some True, show_zoom = Some True, show_scale = Some True,
      show_recenter = Some True, frame_count = Some 3, frame_delay = Some 250,
      restart_delay = Some 1000, overlay_transparency = Some 0\<rparr>"

definition layerOf :: "RadarFrame \<Rightarrow> real \<Rightarrow> RadarLayer" where
  "layerOf frame v = \<lparr>tileUrl = buildRadarTileUrl RAINVIEWER_DEFAULT_HOST (rf_path frame), opacity = v\<rparr>"

definition window2 :: Card where
  "window2 = \<lparr>card_config = Some sampleConfig,
      mapController = Some [rf_id frame0820 \<mapsto> layerOf frame0820 1, rf_id frame0830 \<mapsto> layerOf frame0830 0],
      snapshotTimer = Some (NextSnapshot 615000), frameTimer = Some 250, retryCount = 0,
      radarHost = RAINVIEWER_DEFAULT_HOST, frameIndex = 0,
      layerIds = [rf_id frame0820, rf_id frame0830],
      radarFrames = [frame0820, frame0830]\<rparr>"

definition window3 :: Card where
  "window3 = \<lparr>card_config = Some sampleConfig,
      mapController = Some [rf_id frame0820 \<mapsto> layerOf frame0820 1, rf_id frame0830 \<mapsto> layerOf frame0830 0,
                            rf_id frame0840 \<mapsto> layerOf frame0840 0],
      snapshotTimer = Some (NextSnapshot 615000), frameTimer = Some 250, retryCount = 0,
      radarHost = RAINVIEWER_DEFAULT_HOST, frameIndex = 0,
      layerIds = [rf_id frame0820, rf_id frame0830, rf_id frame0840],
      radarFrames = [frame0820, frame0830, frame0840]\<rparr>"

text \<open>
  The WMTS card with a capacity of two frames: showing both of its layers; one
  tick after a third timestamp was pushed; and with a capacity of one frame.
\<close>

definition bomCard2 :: BomRadarCard where
  "bomCard2 = \<lparr>bom_map = True, bom_frame_count = 2, bom_frame_delay = 250, bom_restart_delay = 1000,
      mapLayers = [''2026-02-15T08:30:00Z'', ''2026-02-15T08:35:00Z''],
      radarTime = [''Sun Feb 15 08:30'', ''Sun Feb 15 08:35''],
      radarTileLayers = [''2026-02-15T08:30:00Z'' \<mapsto> 0, ''2026-02-15T08:35:00Z'' \<mapsto> 1],
      bom_frame = At 1, bom_frameTimer = Some 1000, overlayTransparency = 0,
      capabilitiesRetryCount = 0, pendingTimeouts = []\<rparr>"

definition bomCardExtra :: BomRadarCard where
  "bomCardExtra = bomCard2\<lparr>
      mapLayers := [''2026-02-15T08:30:00Z'', ''2026-02-15T08:35:00Z'', ''2026-02-15T08:40:00Z''],
      radarTime := [''Sun Feb 15 08:30'', ''Sun Feb 15 08:35'', ''Sun Feb 15 08:40''],
      radarTileLayers := [''2026-02-15T08:30:00Z'' \<mapsto> 0, ''2026-02-15T08:35:00Z'' \<mapsto> 1,
                          ''2026-02-15T08:40:00Z'' \<mapsto> 0]\<rparr>"

definition bomCard1 :: BomRadarCard where
  "bomCard1 = bomCard2\<lparr>bom_frame_count := 1,
      mapLayers := [''2026-02-15T08:35:00Z''], radarTime := [''Sun Feb 15 08:35''],
      radarTileLayers := [''2026-02-15T08:35:00Z'' \<mapsto> 1], bom_frame := At 0\<rparr>"

text \<open>
  Arguments of \<open>normalizeConfig\<close>: the empty object, the out-of-range values of
  the repository's test, a fractional transparency, an entity that is a single
  no-break space, and a zoom level of \<open>null\<close>.
\<close>

definition emptyInput :: PartialConfig where
  "emptyInput = \<lparr>p_entity = Undefined, p_card_title = Undefined, p_hide_header = Undefined,
      p_map_style = Undefined, p_zoom_level = Undefined, p_show_marker = Undefined,
      p_show_zoom = Undefined, p_show_scale = Undefined, p_show_recenter = Undefined,
      p_frame_count = Undefined, p_frame_delay = Undefined, p_restart_delay = Undefined,
      p_overlay_transparency = Undefined\<rparr>"

definition outOfRangeInput :: PartialConfig where
  "outOfRangeInput = emptyInput\<lparr>p_entity := Text ''person.scott'',
      p_zoom_level := Number (Finite 99), p_frame_count := Number (Finite 0),
      p_frame_delay := Number (Finite 1), p_restart_delay := Number (Finite 999999),
      p_overlay_transparency := Number (Finite 123)\<rparr>"

definition fractionalInput :: PartialConfig where
  "fractionalInput = emptyInput\<lparr>p_entity := Text ''person.scott'',
      p_zoom_level := Number (Finite 7.5), p_overlay_transparency := Number (Finite 12.5)\<rparr>"

definition blankEntityInput :: PartialConfig where
  "blankEntityInput = emptyInput\<lparr>p_entity := Text [CHR 0xC2, CHR 0xA0]\<rparr>"

definition nullZoomInput :: PartialConfig where
  "nullZoomInput = emptyInput\<lparr>p_entity := Text '' person.scott '', p_zoom_level := Null,
      p_frame_count := Number PosInfinity\<rparr>"

text \<open>A conversion of strings to numbers that reads no string as a number.\<close>

definition noNumber :: "string \<Rightarrow> jsnumber" where
  "noNumber s = NaN"

section \<open>Properties of the grid reconciliation\<close>

lemma getTileSpan_pos: "0 < getTileSpan zoom"
  by (simp add: getTileSpan_def EARTH_HALF_CIRCUMFERENCE_def)

lemma distinct_grid:
  assumes "distinct rs" and "distinct cs"
    and inj: "\<And>r c r' c'. f r c = f r' c' \<Longrightarrow> r = r' \<and> c = c'"
  shows "distinct (concat (map (\<lambda>r. map (f r) cs) rs))"
  using assms(1)
proof (induction rs)
  case Nil
  then show ?case by simp
next
  case (Cons r rs)
  have "distinct (map (f r) cs)"
    using assms(2) inj by (auto simp: distinct_map inj_on_def)
  moreover have "set (map (f r) cs) \<inter> set (concat (map (\<lambda>r. map (f r) cs) rs)) = {}"
    using Cons.prems inj by fastforce
  ultimately show ?case using Cons by simp
qed

text \<open>
  Claim C1.  For a viewer tile \<open>coords\<close> with projected bounding box
  \<open>[leafMinX, leafMaxX] \<times> [leafMinY, leafMaxY]\<close> and tile span \<open>tsp\<close>: when the zoom
  has no matrix entry the tile is empty; when it has the entry \<open>tm\<close>, the images
  produced are, each exactly once, those of the provider tiles \<open>(col, row)\<close> with
  \<open>max(0, floor((leafMinX - originX)/tsp)) \<le> col \<le> min(cols - 1,
  floor((leafMaxX - originX - 0.01)/tsp))\<close> and
  \<open>max(0, floor((originY - leafMaxY)/tsp)) \<le> row \<le> min(rows - 1,
  floor((originY - leafMinY - 0.01)/tsp))\<close>, each carrying the request for that
  tile and the pixel offset
  \<open>(round((originX + col * tsp - leafMinX)/tsp * 256),
  round((leafMaxY - (originY - row * tsp))/tsp * 256))\<close>.  The function is total:
  there is no input on which it fails.
\<close>

theorem createTile_postcondition:
  fixes coords :: Coords
  defines "tsp \<equiv> (2 * 20037508.342789244) / power_int 2 (coords_z coords)"
  defines "leafMinX \<equiv> - 20037508.342789244 + real_of_int (coords_x coords) * tsp"
  defines "leafMaxX \<equiv> leafMinX + tsp"
  defines "leafMaxY \<equiv> 20037508.342789244 - real_of_int (coords_y coords) * tsp"
  defines "leafMinY \<equiv> leafMaxY - tsp"
  shows "(BOM_TILE_MATRICES (coords_z coords) = None \<longrightarrow> createTile timestamp coords = []) \<and>
    (\<forall>tm. BOM_TILE_MATRICES (coords_z coords) = Some tm \<longrightarrow>
      distinct (createTile timestamp coords) \<and>
      set (createTile timestamp coords) =
        {\<lparr>img_row = row, img_col = col,
           img_src = bomKvpUrl (coords_z coords) row col timestamp,
           offsetX = round (((originX tm + real_of_int col * tsp - leafMinX) / tsp) * 256),
           offsetY = round (((leafMaxY - (originY tm - real_of_int row * tsp)) / tsp) * 256)\<rparr> | col row.
          max 0 \<lfloor>(leafMinX - originX tm) / tsp\<rfloor> \<le> col \<and>
          col \<le> min (cols tm - 1) \<lfloor>(leafMaxX - originX tm - 0.01) / tsp\<rfloor> \<and>
          max 0 \<lfloor>(originY tm - leafMaxY) / tsp\<rfloor> \<le> row \<and>
          row \<le> min (rows tm - 1) \<lfloor>(originY tm - leafMinY - 0.01) / tsp\<rfloor>})"
proof (intro conjI allI impI)
  show "createTile timestamp coords = []" if "BOM_TILE_MATRICES (coords_z coords) = None"
    using that by (simp add: createTile_def)
next
  fix tm assume tm: "BOM_TILE_MATRICES (coords_z coords) = Some tm"
  show "distinct (createTile timestamp coords)"
    using tm unfolding createTile_def createTileImages_def Let_def
    by (auto intro!: distinct_grid)
  show "set (createTile timestamp coords) =
        {\<lparr>img_row = row, img_col = col,
           img_src = bomKvpUrl (coords_z coords) row col timestamp,
           offsetX = round (((originX tm + real_of_int col * tsp - leafMinX) / tsp) * 256),
           offsetY = round (((leafMaxY - (originY tm - real_of_int row * tsp)) / tsp) * 256)\<rparr> | col row.
          max 0 \<lfloor>(leafMinX - originX tm) / tsp\<rfloor> \<le> col \<and>
          col \<le> min (cols tm - 1) \<lfloor>(leafMaxX - originX tm - 0.01) / tsp\<rfloor> \<and>
          max 0 \<lfloor>(originY tm - leafMaxY) / tsp\<rfloor> \<le> row \<and>
          row \<le> min (rows tm - 1) \<lfloor>(originY tm - leafMinY - 0.01) / tsp\<rfloor>}"
    using tm
    unfolding createTile_def createTileImages_def getTileSpan_def EARTH_HALF_CIRCUMFERENCE_def Let_def
      tsp_def leafMinX_def leafMaxX_def leafMaxY_def leafMinY_def
    by (auto simp: image_iff)
qed

text \<open>
  The postcondition at the viewer tile (7, 4) of zoom 3, which straddles four
  provider tiles: the image of provider tile (col 0, row 1) is among them, with
  offset (-176, 46).
\<close>

theorem createTile_postcondition_witness:
  "BOM_TILE_MATRICES 3 = Some \<lparr>originX = 11584952, originY = 4112728.171395, cols = 2, rows = 2\<rparr> \<and>
   \<lparr>img_row = 1, img_col = 0, img_src = bomKvpUrl 3 1 0 ''t'', offsetX = - 176, offsetY = 46\<rparr>
     \<in> set (createTile ''t'' \<lparr>coords_x = 7, coords_y = 4, coords_z = 3\<rparr>)"
proof -
  let ?c = "\<lparr>coords_x = 7, coords_y = 4, coords_z = 3\<rparr>"
  let ?tm = "\<lparr>originX = 11584952, originY = 4112728.171395, cols = 2, rows = 2\<rparr>"
  have h: "BOM_TILE_MATRICES (coords_z ?c) = Some ?tm"
    by (simp add: BOM_TILE_MATRICES_def)
  note eq = createTile_postcondition [of ?c "''t''", THEN conjunct2, THEN spec, THEN mp, OF h, THEN conjunct2]
  have "\<lparr>img_row = 1, img_col = 0, img_src = bomKvpUrl 3 1 0 ''t'', offsetX = - 176, offsetY = 46\<rparr>
      \<in> set (createTile ''t'' ?c)"
    unfolding eq
    apply (rule CollectI)
    apply (rule exI [of _ 0])
    apply (rule exI [of _ 1])
    apply (simp add: round_def)
    done
  with h show ?thesis by simp
qed

text \<open>
  Claim C4 as the code has it.  For a matrix entry with one column and one row,
  a viewer tile yields no image or exactly one, the one of provider tile (0, 0),
  and its pixel offset lies within \<open>[-256, 256]\<close> on each axis: the provider tile
  may begin to the left of or above the viewer tile, whose overflow is hidden.
\<close>

theorem createTileImages_single_entry:
  assumes "cols tm = 1" and "rows tm = 1"
  shows "length (createTileImages timestamp tm coords) \<le> 1 \<and>
    (\<forall>i \<in> set (createTileImages timestamp tm coords).
       img_col i = 0 \<and> img_row i = 0 \<and>
       - 256 \<le> offsetX i \<and> offsetX i \<le> 256 \<and> - 256 \<le> offsetY i \<and> offsetY i \<le> 256)"
proof -
  define s where "s = getTileSpan (coords_z coords)"
  have s: "0 < s" by (simp add: s_def getTileSpan_pos)
  have one: "length (concat (map (\<lambda>row. map (f row) [max 0 a .. min 0 b]) [max 0 c .. min 0 d])) \<le> 1"
    for f :: "int \<Rightarrow> int \<Rightarrow> BomImg" and a b c d :: int
  proof -
    have "[max 0 a .. min 0 b] = [] \<or> [max 0 a .. min 0 b] = [0]" for a b :: int
      by (cases "a \<le> 0 \<and> 0 \<le> b") (auto simp: upto.simps max_def min_def)
    from this [of a b] this [of c d] show ?thesis by auto
  qed
  have lo_r: "- 256 \<le> round (r * 256)" if "- 1 < r" for r :: real
    using that unfolding round_def by linarith
  have hi_r: "round (r * 256) \<le> 256" if "r < 1" for r :: real
    using that unfolding round_def by linarith
  have lo: "- 256 \<le> round (u / s * 256)" if "\<lfloor>- u / s\<rfloor> \<le> 0" for u
  proof -
    from that have "- u / s < 1" by linarith
    moreover have "- u / s = - (u / s)" by simp
    ultimately have "- 1 < u / s" by linarith
    then show ?thesis by (rule lo_r)
  qed
  have hi: "round (u / s * 256) \<le> 256" if "0 \<le> \<lfloor>(- u + s - 0.01) / s\<rfloor>" for u
  proof -
    from that have "0 \<le> (- u + s - 0.01) / s" by linarith
    with s have "0 \<le> - u + s - 0.01" by (simp add: zero_le_divide_iff)
    then have "u < s" by simp
    with s have "u / s < 1" by simp
    then show ?thesis by (rule hi_r)
  qed
  define leafMinX where "leafMinX = - EARTH_HALF_CIRCUMFERENCE + real_of_int (coords_x coords) * s"
  define leafMaxY where "leafMaxY = EARTH_HALF_CIRCUMFERENCE - real_of_int (coords_y coords) * s"
  define ux where "ux = originX tm - leafMinX"
  define uy where "uy = leafMaxY - originY tm"
  have imgs: "createTileImages timestamp tm coords =
      concat (map (\<lambda>row. map (\<lambda>col.
          \<lparr>img_row = row, img_col = col,
           img_src = bomKvpUrl (coords_z coords) row col timestamp,
           offsetX = round (((originX tm + real_of_int col * s - leafMinX) / s) * 256),
           offsetY = round (((leafMaxY - (originY tm - real_of_int row * s)) / s) * 256)\<rparr>)
        [max 0 \<lfloor>- ux / s\<rfloor> .. min 0 \<lfloor>(- ux + s - 0.01) / s\<rfloor>])
        [max 0 \<lfloor>- uy / s\<rfloor> .. min 0 \<lfloor>(- uy + s - 0.01) / s\<rfloor>])"
    unfolding createTileImages_def Let_def s_def [symmetric] leafMinX_def leafMaxY_def ux_def uy_def
    using assms by (simp add: algebra_simps)
  have len: "length (createTileImages timestamp tm coords) \<le> 1"
    unfolding imgs by (rule one)
  have offs: "img_col i = 0 \<and> img_row i = 0 \<and>
       - 256 \<le> offsetX i \<and> offsetX i \<le> 256 \<and> - 256 \<le> offsetY i \<and> offsetY i \<le> 256"
    if "i \<in> set (createTileImages timestamp tm coords)" for i
  proof -
    from that obtain row col where
      row: "max 0 \<lfloor>- uy / s\<rfloor> \<le> row" "row \<le> min 0 \<lfloor>(- uy + s - 0.01) / s\<rfloor>" and
      col: "max 0 \<lfloor>- ux / s\<rfloor> \<le> col" "col \<le> min 0 \<lfloor>(- ux + s - 0.01) / s\<rfloor>" and
      i: "i = \<lparr>img_row = row, img_col = col,
           img_src = bomKvpUrl (coords_z coords) row col timestamp,
           offsetX = round (((originX tm + real_of_int col * s - leafMinX) / s) * 256),
           offsetY = round (((leafMaxY - (originY tm - real_of_int row * s)) / s) * 256)\<rparr>"
      unfolding imgs by auto
    from row have r0: "row = 0" and ry: "\<lfloor>- uy / s\<rfloor> \<le> 0" "0 \<le> \<lfloor>(- uy + s - 0.01) / s\<rfloor>" by auto
    from col have c0: "col = 0" and cx: "\<lfloor>- ux / s\<rfloor> \<le> 0" "0 \<le> \<lfloor>(- ux + s - 0.01) / s\<rfloor>" by auto
    have "offsetX i = round (ux / s * 256)" "offsetY i = round (uy / s * 256)"
      by (simp_all add: i r0 c0 ux_def uy_def)
    with lo [OF cx(1)] hi [OF cx(2)] lo [OF ry(1)] hi [OF ry(2)] i r0 c0 show ?thesis by simp
  qed
  from len offs show ?thesis by blast
qed

text \<open>The single-entry bound at the entry of zoom 0 and the viewer tile (0, 0).\<close>

theorem createTileImages_single_entry_witness:
  "cols \<lparr>originX = 11584952, originY = 34168990.685578, cols = 1, rows = 1\<rparr> = 1 \<and>
   rows \<lparr>originX = 11584952, originY = 34168990.685578, cols = 1, rows = 1\<rparr> = 1 \<and>
   length (createTileImages ''t'' \<lparr>originX = 11584952, originY = 34168990.685578, cols = 1, rows = 1\<rparr>
      \<lparr>coords_x = 0, coords_y = 0, coords_z = 0\<rparr>) \<le> 1"
  using createTileImages_single_entry
    [of "\<lparr>originX = 11584952, originY = 34168990.685578, cols = 1, rows = 1\<rparr>" "''t''"
        "\<lparr>coords_x = 0, coords_y = 0, coords_z = 0\<rparr>"]
  by simp

text \<open>
  The offsets are not confined to \<open>[0, 256)\<close>: at zoom 0, whose matrix entry is
  one by one, the viewer tile (0, 0) yields one image, placed 90 pixels above
  the top edge of the tile.
\<close>

theorem createTile_single_entry_counterexample:
  "BOM_TILE_MATRICES 0 = Some \<lparr>originX = 11584952, originY = 34168990.685578, cols = 1, rows = 1\<rparr> \<and>
   map offsetX (createTile ''t'' \<lparr>coords_x = 0, coords_y = 0, coords_z = 0\<rparr>) = [202] \<and>
   map offsetY (createTile ''t'' \<lparr>coords_x = 0, coords_y = 0, coords_z = 0\<rparr>) = [- 90]"
  by (simp add: createTile_def BOM_TILE_MATRICES_def createTileImages_def getTileSpan_def
      EARTH_HALF_CIRCUMFERENCE_def Let_def round_def)

section \<open>Properties of the tile timestamps\<close>

text \<open>Every instant the card computes is a whole multiple of five minutes.\<close>

lemma latestMs_quantized: "latestMs nowMs mod 300000 = 0"
  by (simp add: latestMs_def Let_def)

lemma capabilityInstants_quantized:
  "t \<in> set (capabilityInstants n nowMs) \<Longrightarrow> t mod 300000 = 0"
proof -
  assume "t \<in> set (capabilityInstants n nowMs)"
  then obtain i where "t = latestMs nowMs - i * 5 * 60 * 1000"
    by (auto simp: capabilityInstants_def Let_def)
  then have "t = (nowMs - 300000) div 300000 * 300000 - i * 300000"
    by (simp add: latestMs_def Let_def)
  then have "t = ((nowMs - 300000) div 300000 - i) * 300000"
    by (simp add: algebra_simps)
  then show ?thesis by simp
qed

lemma generateInstants_quantized:
  assumes "start_time mod 300000 = 0" and "t \<in> set (generateInstants start_time n)"
  shows "t mod 300000 = 0"
proof -
  from assms(2) obtain i where "t = start_time + i * 5 * 60 * 1000"
    by (auto simp: generateInstants_def)
  then have "t = start_time + i * 300000" by simp
  with assms(1) show ?thesis by (simp add: mod_add_left_eq [symmetric])
qed

text \<open>Whatever the date, the formatted timestamp ends in a seconds field.\<close>

lemma formatWmtsTimestamp_seconds: "\<exists>p. formatWmtsTimestamp date = p @ '':00Z''"
  by (simp add: formatWmtsTimestamp_def Let_def)

text \<open>
  Claim C5, at the clock reading 2026-02-15T08:47:10Z.  The latest instant is
  08:40, a multiple of five minutes, but the text made for it carries the
  seconds field \<open>:00\<close>, and so does the \<open>TIME\<close> value of the tile request, where
  the documentation of \<open>formatWmtsTimestamp\<close> asks for \<open>2026-02-15T08:40Z\<close>.
\<close>

theorem bomKvpUrl_time_has_seconds:
  "latestMs 1771145230000 = 1771144800000 \<and>
   formatWmtsTimestamp (latestMs 1771145230000) = ''2026-02-15T08:40:00Z'' \<and>
   bomKvpUrl 3 1 1 (formatWmtsTimestamp (latestMs 1771145230000)) =
     ''https://api.bom.gov.au/apikey/v1/mapping/timeseries/wmts?SERVICE=WMTS&REQUEST=GetTile&VERSION=1.0.0''
     @ ''&LAYER=atm_surf_air_precip_reflectivity_dbz&STYLE=default&FORMAT=image/png''
     @ ''&TILEMATRIXSET=GoogleMapsCompatible_BoM&TILEMATRIX=3&TILEROW=1&TILECOL=1''
     @ ''&TIME=2026-02-15T08%3A40%3A00Z''"
proof -
  have l: "latestMs 1771145230000 = 1771144800000"
    by (simp add: latestMs_def Let_def)
  have f: "formatWmtsTimestamp 1771144800000 = ''2026-02-15T08:40:00Z''"
    by code_simp
  have u: "bomKvpUrl 3 1 1 ''2026-02-15T08:40:00Z'' =
     ''https://api.bom.gov.au/apikey/v1/mapping/timeseries/wmts?SERVICE=WMTS&REQUEST=GetTile&VERSION=1.0.0''
     @ ''&LAYER=atm_surf_air_precip_reflectivity_dbz&STYLE=default&FORMAT=image/png''
     @ ''&TILEMATRIXSET=GoogleMapsCompatible_BoM&TILEMATRIX=3&TILEROW=1&TILECOL=1''
     @ ''&TIME=2026-02-15T08%3A40%3A00Z''"
    by code_simp
  show ?thesis
    unfolding l f by (intro conjI refl u)
qed

section \<open>Properties of playback\<close>

lemma js_rem_nonneg: "0 \<le> a \<Longrightarrow> 0 < n \<Longrightarrow> js_rem a n = a mod n"
  by (cases "a = 0") (simp_all add: js_rem_def)

lemma applyVisibleFrame_fields [simp]:
  "card_config (applyVisibleFrame s) = card_config s"
  "radarFrames (applyVisibleFrame s) = radarFrames s"
  "layerIds (applyVisibleFrame s) = layerIds s"
  "frameIndex (applyVisibleFrame s) = frameIndex s"
  "frameTimer (applyVisibleFrame s) = frameTimer s"
  "snapshotTimer (applyVisibleFrame s) = snapshotTimer s"
  "retryCount (applyVisibleFrame s) = retryCount s"
  by (simp_all add: applyVisibleFrame_def Let_def split: option.splits)

lemma scheduleNextFrame_fields [simp]:
  "card_config (scheduleNextFrame d s) = card_config s"
  "radarFrames (scheduleNextFrame d s) = radarFrames s"
  "layerIds (scheduleNextFrame d s) = layerIds s"
  "frameIndex (scheduleNextFrame d s) = frameIndex s"
  "mapController (scheduleNextFrame d s) = mapController s"
  "snapshotTimer (scheduleNextFrame d s) = snapshotTimer s"
  "retryCount (scheduleNextFrame d s) = retryCount s"
  by (simp_all add: scheduleNextFrame_def Let_def)

lemma frameTimer_scheduleNextFrame:
  "frameTimer (scheduleNextFrame d s) =
     (if card_config s = None \<or> length (radarFrames s) \<le> 1 then None else Some d)"
  by (simp add: scheduleNextFrame_def Let_def)

lemma advanceFrame_keeps [simp]:
  "card_config (advanceFrame s) = card_config s"
  "radarFrames (advanceFrame s) = radarFrames s"
  by (simp_all add: advanceFrame_def Let_def split: option.splits)

text \<open>One tick of the raster card on a window of at least two frames.\<close>

lemma advanceFrame_step:
  assumes c: "card_config s = Some c" and len: "2 \<le> length (radarFrames s)"
    and idx: "0 \<le> frameIndex s"
  shows "frameIndex (advanceFrame s) = (frameIndex s + 1) mod int (length (radarFrames s))"
    and "frameTimer (advanceFrame s) =
      Some (if (frameIndex s + 1) mod int (length (radarFrames s)) = int (length (radarFrames s)) - 1
            then (case restart_delay c of Some d \<Rightarrow> d | None \<Rightarrow> 1000)
            else (case frame_delay c of Some d \<Rightarrow> d | None \<Rightarrow> 250))"
proof -
  from len have n: "0 < int (length (radarFrames s))" "radarFrames s \<noteq> []" by auto
  from idx n have r: "js_rem (frameIndex s + 1) (int (length (radarFrames s)))
      = (frameIndex s + 1) mod int (length (radarFrames s))"
    by (intro js_rem_nonneg) simp_all
  show "frameIndex (advanceFrame s) = (frameIndex s + 1) mod int (length (radarFrames s))"
    using c n r by (simp add: advanceFrame_def Let_def)
  show "frameTimer (advanceFrame s) =
      Some (if (frameIndex s + 1) mod int (length (radarFrames s)) = int (length (radarFrames s)) - 1
            then (case restart_delay c of Some d \<Rightarrow> d | None \<Rightarrow> 1000)
            else (case frame_delay c of Some d \<Rightarrow> d | None \<Rightarrow> 250))"
    using c n r len by (simp add: advanceFrame_def Let_def frameTimer_scheduleNextFrame)
qed

text \<open>One tick of the WMTS card when the layer list has exactly \<open>frame_count\<close> entries.\<close>

lemma changeRadarFrame_step:
  assumes m: "bom_map t" and full: "int (length (mapLayers t)) = bom_frame_count t"
    and len: "2 \<le> length (mapLayers t)" and f: "bom_frame t = At i" and i: "0 \<le> i"
  shows "bom_frame (changeRadarFrame t) = At ((i + 1) mod int (length (mapLayers t)))"
    and "mapLayers (changeRadarFrame t) = mapLayers t"
    and "bom_frameTimer (changeRadarFrame t) =
      Some (if (i + 1) mod int (length (mapLayers t)) = int (length (mapLayers t)) - 1
            then bom_restart_delay t else bom_frame_delay t)"
proof -
  from len have n: "0 < int (length (mapLayers t))" "mapLayers t \<noteq> []" by auto
  from i n have r: "js_rem (i + 1) (int (length (mapLayers t))) = (i + 1) mod int (length (mapLayers t))"
    by (intro js_rem_nonneg) simp_all
  have x: "\<not> int (length (mapLayers t)) > bom_frame_count t" using full by simp
  show "bom_frame (changeRadarFrame t) = At ((i + 1) mod int (length (mapLayers t)))"
    using m f n r x by (simp add: changeRadarFrame_def Let_def)
  show "mapLayers (changeRadarFrame t) = mapLayers t"
    using m f n r x by (simp add: changeRadarFrame_def Let_def)
  show "bom_frameTimer (changeRadarFrame t) =
      Some (if (i + 1) mod int (length (mapLayers t)) = int (length (mapLayers t)) - 1
            then bom_restart_delay t else bom_frame_delay t)"
    using m f n r x full by (simp add: changeRadarFrame_def Let_def)
qed

lemma bom_removeRadarLayer_fields [simp]:
  "mapLayers (bom_removeRadarLayer l s) = mapLayers s"
  "radarTime (bom_removeRadarLayer l s) = radarTime s"
  "bom_frame (bom_removeRadarLayer l s) = bom_frame s"
  "bom_frameTimer (bom_removeRadarLayer l s) = bom_frameTimer s"
  by (simp_all add: bom_removeRadarLayer_def split: option.splits)

text \<open>Every tick of a card with its map arms the interval again.\<close>

lemma changeRadarFrame_timer:
  assumes "bom_map t"
  shows "bom_frameTimer (changeRadarFrame t) =
    Some (if bom_frame (changeRadarFrame t) = At (bom_frame_count t - 1)
          then bom_restart_delay t else bom_frame_delay t)"
  using assms by (simp add: changeRadarFrame_def Let_def)

text \<open>A tick on a list of at most \<open>frame_count\<close> layers, and on a longer one.\<close>

lemma changeRadarFrame_within:
  assumes m: "bom_map t" and x: "int (length (mapLayers t)) \<le> bom_frame_count t"
    and ne: "mapLayers t \<noteq> []" and f: "bom_frame t = At i" and i: "0 \<le> i"
  shows "bom_frame (changeRadarFrame t) = At ((i + 1) mod int (length (mapLayers t)))"
    and "mapLayers (changeRadarFrame t) = mapLayers t"
    and "radarTime (changeRadarFrame t) = radarTime t"
proof -
  from ne have n: "0 < int (length (mapLayers t))" by simp
  from i n have r: "js_rem (i + 1) (int (length (mapLayers t))) = (i + 1) mod int (length (mapLayers t))"
    by (intro js_rem_nonneg) simp_all
  from x have x': "\<not> bom_frame_count t < int (length (mapLayers t))" by simp
  show "bom_frame (changeRadarFrame t) = At ((i + 1) mod int (length (mapLayers t)))"
    using m f ne r x' by (simp add: changeRadarFrame_def Let_def)
  show "mapLayers (changeRadarFrame t) = mapLayers t"
    using m f ne r x' by (simp add: changeRadarFrame_def Let_def)
  show "radarTime (changeRadarFrame t) = radarTime t"
    using m f ne r x' by (simp add: changeRadarFrame_def Let_def)
qed

lemma changeRadarFrame_extra:
  assumes m: "bom_map t" and x: "bom_frame_count t < int (length (mapLayers t))"
    and ne: "mapLayers t \<noteq> []" and f: "bom_frame t = At i" and i: "0 \<le> i"
  shows "bom_frame (changeRadarFrame t) = At ((i + 1) mod int (length (mapLayers t)) - 1)"
    and "mapLayers (changeRadarFrame t) = tl (mapLayers t)"
    and "radarTime (changeRadarFrame t) = tl (radarTime t)"
    and "radarTileLayers (changeRadarFrame t) (hd (mapLayers t)) = None"
proof -
  from ne have n: "0 < int (length (mapLayers t))" by simp
  from i n have r: "js_rem (i + 1) (int (length (mapLayers t))) = (i + 1) mod int (length (mapLayers t))"
    by (intro js_rem_nonneg) simp_all
  from ne obtain l ls where l: "mapLayers t = l # ls" by (cases "mapLayers t") auto
  show "radarTileLayers (changeRadarFrame t) (hd (mapLayers t)) = None"
    using m f ne r x
    by (simp add: changeRadarFrame_def Let_def l bom_removeRadarLayer_def split: option.splits)
  show "bom_frame (changeRadarFrame t) = At ((i + 1) mod int (length (mapLayers t)) - 1)"
    using m f ne r x by (simp add: changeRadarFrame_def Let_def l)
  show "mapLayers (changeRadarFrame t) = tl (mapLayers t)"
    using m f ne r x by (simp add: changeRadarFrame_def Let_def l)
  show "radarTime (changeRadarFrame t) = tl (radarTime t)"
    using m f ne r x by (simp add: changeRadarFrame_def Let_def l)
qed

lemma changeRadarFrame_empty:
  assumes "bom_map t" and "mapLayers t = []"
  shows "bom_frame (changeRadarFrame t) = NotANumber"
  using assms by (simp add: changeRadarFrame_def Let_def split: frameindex.splits)

text \<open>
  Claim C3 as the code has it.  In the raster card a tick on a window of at
  least two frames sets the index to \<open>(index + 1) mod length\<close> and arms the
  restart delay when the new index is the last one and the frame delay
  otherwise; with at most one frame no timer is armed; from index 0 in a window
  of three frames, three ticks visit 1, 2 and 0, and only the second arms the
  restart delay.  In \<open>changeRadarFrame\<close> of the WMTS card and of the older
  raster card, with the map present: the same index and delay rule holds when
  the layer list has exactly \<open>frame_count\<close> entries, at least two; on a list that
  is not empty and an index that is not negative, the index becomes
  \<open>(index + 1) mod length\<close> when the list holds at most \<open>frame_count\<close> layers, and
  when it holds more the oldest layer is dropped and the index becomes
  \<open>(index + 1) mod length - 1\<close>; on an empty list the index becomes \<open>NaN\<close>; and on
  every tick, whatever the length, the interval is armed again, with the
  restart delay when the new index is \<open>frame_count - 1\<close> and the frame delay
  otherwise.  Without the map a tick changes nothing.
\<close>

theorem playback_advance_rule:
  fixes c :: BomRasterRadarCardConfig
  defines "restartDelay \<equiv> (case restart_delay c of Some d \<Rightarrow> d | None \<Rightarrow> 1000)"
  defines "frameDelay \<equiv> (case frame_delay c of Some d \<Rightarrow> d | None \<Rightarrow> 250)"
  shows "(card_config s = Some c \<and> 2 \<le> length (radarFrames s) \<and> 0 \<le> frameIndex s \<longrightarrow>
       frameIndex (advanceFrame s) = (frameIndex s + 1) mod int (length (radarFrames s)) \<and>
       radarFrames (advanceFrame s) = radarFrames s \<and>
       frameTimer (advanceFrame s) =
         Some (if frameIndex (advanceFrame s) = int (length (radarFrames s)) - 1
               then restartDelay else frameDelay)) \<and>
     (length (radarFrames s) \<le> 1 \<longrightarrow> frameTimer (scheduleNextFrame delayMs s) = None) \<and>
     (card_config s = Some c \<and> length (radarFrames s) = 1 \<longrightarrow> frameTimer (advanceFrame s) = None) \<and>
     (card_config s = Some c \<and> length (radarFrames s) = 3 \<and> frameIndex s = 0 \<longrightarrow>
       frameIndex (advanceFrame s) = 1 \<and>
       frameTimer (advanceFrame s) = Some frameDelay \<and>
       frameIndex (advanceFrame (advanceFrame s)) = 2 \<and>
       frameTimer (advanceFrame (advanceFrame s)) = Some restartDelay \<and>
       frameIndex (advanceFrame (advanceFrame (advanceFrame s))) = 0 \<and>
       frameTimer (advanceFrame (advanceFrame (advanceFrame s))) = Some frameDelay) \<and>
     (bom_map t \<and> int (length (mapLayers t)) = bom_frame_count t \<and> 2 \<le> length (mapLayers t) \<and>
      bom_frame t = At i \<and> 0 \<le> i \<longrightarrow>
       bom_frame (changeRadarFrame t) = At ((i + 1) mod int (length (mapLayers t))) \<and>
       mapLayers (changeRadarFrame t) = mapLayers t \<and>
       bom_frameTimer (changeRadarFrame t) =
         Some (if (i + 1) mod int (length (mapLayers t)) = int (length (mapLayers t)) - 1
               then bom_restart_delay t else bom_frame_delay t)) \<and>
     (bom_map t \<and> int (length (mapLayers t)) \<le> bom_frame_count t \<and> mapLayers t \<noteq> [] \<and>
      bom_frame t = At i \<and> 0 \<le> i \<longrightarrow>
       bom_frame (changeRadarFrame t) = At ((i + 1) mod int (length (mapLayers t))) \<and>
       mapLayers (changeRadarFrame t) = mapLayers t \<and>
       radarTime (changeRadarFrame t) = radarTime t) \<and>
     (bom_map t \<and> bom_frame_count t < int (length (mapLayers t)) \<and> mapLayers t \<noteq> [] \<and>
      bom_frame t = At i \<and> 0 \<le> i \<longrightarrow>
       bom_frame (changeRadarFrame t) = At ((i + 1) mod int (length (mapLayers t)) - 1) \<and>
       mapLayers (changeRadarFrame t) = tl (mapLayers t) \<and>
       radarTime (changeRadarFrame t) = tl (radarTime t) \<and>
       radarTileLayers (changeRadarFrame t) (hd (mapLayers t)) = None) \<and>
     (bom_map t \<and> mapLayers t = [] \<longrightarrow> bom_frame (changeRadarFrame t) = NotANumber) \<and>
     (bom_map t \<longrightarrow>
       bom_frameTimer (changeRadarFrame t) =
         Some (if bom_frame (changeRadarFrame t) = At (bom_frame_count t - 1)
               then bom_restart_delay t else bom_frame_delay t)) \<and>
     (\<not> bom_map t \<longrightarrow> changeRadarFrame t = t)"
proof (intro conjI impI; (elim conjE)?)
  assume a: "card_config s = Some c" "2 \<le> length (radarFrames s)" "0 \<le> frameIndex s"
  show "frameIndex (advanceFrame s) = (frameIndex s + 1) mod int (length (radarFrames s))"
    by (rule advanceFrame_step(1) [OF a])
  show "radarFrames (advanceFrame s) = radarFrames s" by simp
  show "frameTimer (advanceFrame s) =
         Some (if frameIndex (advanceFrame s) = int (length (radarFrames s)) - 1
               then restartDelay else frameDelay)"
    unfolding advanceFrame_step [OF a] restartDelay_def frameDelay_def by simp
next
  assume "length (radarFrames s) \<le> 1"
  then show "frameTimer (scheduleNextFrame delayMs s) = None"
    by (simp add: frameTimer_scheduleNextFrame)
next
  assume "card_config s = Some c" "length (radarFrames s) = 1"
  then show "frameTimer (advanceFrame s) = None"
    by (simp add: advanceFrame_def Let_def frameTimer_scheduleNextFrame)
next
  assume c: "card_config s = Some c" and l: "length (radarFrames s) = 3" and z: "frameIndex s = 0"
  let ?s1 = "advanceFrame s" and ?s2 = "advanceFrame (advanceFrame s)"
  have l2: "2 \<le> length (radarFrames s)" using l by simp
  have i1: "frameIndex ?s1 = 1" and t1: "frameTimer ?s1 = Some frameDelay"
    using advanceFrame_step [OF c l2] z l by (simp_all add: frameDelay_def)
  have c1: "card_config ?s1 = Some c" and l1: "2 \<le> length (radarFrames ?s1)"
    using c l by simp_all
  have i2: "frameIndex ?s2 = 2" and t2: "frameTimer ?s2 = Some restartDelay"
    using advanceFrame_step [OF c1 l1] i1 l by (simp_all add: restartDelay_def)
  have c2: "card_config ?s2 = Some c" and l2': "2 \<le> length (radarFrames ?s2)"
    using c l by simp_all
  have i3: "frameIndex (advanceFrame ?s2) = 0" and t3: "frameTimer (advanceFrame ?s2) = Some frameDelay"
    using advanceFrame_step [OF c2 l2'] i2 l by (simp_all add: frameDelay_def)
  show "frameIndex ?s1 = 1" by (rule i1)
  show "frameTimer ?s1 = Some frameDelay" by (rule t1)
  show "frameIndex ?s2 = 2" by (rule i2)
  show "frameTimer ?s2 = Some restartDelay" by (rule t2)
  show "frameIndex (advanceFrame ?s2) = 0" by (rule i3)
  show "frameTimer (advanceFrame ?s2) = Some frameDelay" by (rule t3)
next
  assume a: "bom_map t" "int (length (mapLayers t)) = bom_frame_count t" "2 \<le> length (mapLayers t)"
    "bom_frame t = At i" "0 \<le> i"
  show "bom_frame (changeRadarFrame t) = At ((i + 1) mod int (length (mapLayers t)))"
    by (rule changeRadarFrame_step(1) [OF a])
  show "mapLayers (changeRadarFrame t) = mapLayers t"
    by (rule changeRadarFrame_step(2) [OF a])
  show "bom_frameTimer (changeRadarFrame t) =
         Some (if (i + 1) mod int (length (mapLayers t)) = int (length (mapLayers t)) - 1
               then bom_restart_delay t else bom_frame_delay t)"
    by (rule changeRadarFrame_step(3) [OF a])
next
  assume a: "bom_map t" "int (length (mapLayers t)) \<le> bom_frame_count t" "mapLayers t \<noteq> []"
    "bom_frame t = At i" "0 \<le> i"
  show "bom_frame (changeRadarFrame t) = At ((i + 1) mod int (length (mapLayers t)))"
    by (rule changeRadarFrame_within(1) [OF a])
  show "mapLayers (changeRadarFrame t) = mapLayers t"
    by (rule changeRadarFrame_within(2) [OF a])
  show "radarTime (changeRadarFrame t) = radarTime t"
    by (rule changeRadarFrame_within(3) [OF a])
next
  assume a: "bom_map t" "bom_frame_count t < int (length (mapLayers t))" "mapLayers t \<noteq> []"
    "bom_frame t = At i" "0 \<le> i"
  show "bom_frame (changeRadarFrame t) = At ((i + 1) mod int (length (mapLayers t)) - 1)"
    by (rule changeRadarFrame_extra(1) [OF a])
  show "mapLayers (changeRadarFrame t) = tl (mapLayers t)"
    by (rule changeRadarFrame_extra(2) [OF a])
  show "radarTime (changeRadarFrame t) = tl (radarTime t)"
    by (rule changeRadarFrame_extra(3) [OF a])
  show "radarTileLayers (changeRadarFrame t) (hd (mapLayers t)) = None"
    by (rule changeRadarFrame_extra(4) [OF a])
next
  assume "bom_map t" "mapLayers t = []"
  then show "bom_frame (changeRadarFrame t) = NotANumber"
    by (rule changeRadarFrame_empty)
next
  assume "bom_map t"
  then show "bom_frameTimer (changeRadarFrame t) =
         Some (if bom_frame (changeRadarFrame t) = At (bom_frame_count t - 1)
               then bom_restart_delay t else bom_frame_delay t)"
    by (rule changeRadarFrame_timer)
next
  assume "\<not> bom_map t"
  then show "changeRadarFrame t = t"
    by (simp add: changeRadarFrame_def)
qed

text \<open>
  The rule on the sample window of three frames, on a window of one frame, on
  the WMTS card showing the second of its two layers, on that card after a
  third layer was pushed, with a single layer, and with no layer and no map.
\<close>

theorem playback_advance_rule_witness:
  "card_config window3 = Some sampleConfig \<and> length (radarFrames window3) = 3 \<and> frameIndex window3 = 0 \<and>
   frameIndex (advanceFrame window3) = 1 \<and> frameTimer (advanceFrame window3) = Some 250 \<and>
   frameIndex (advanceFrame (advanceFrame window3)) = 2 \<and>
   frameTimer (advanceFrame (advanceFrame window3)) = Some 1000 \<and>
   frameIndex (advanceFrame (advanceFrame (advanceFrame window3))) = 0 \<and>
   frameTimer (scheduleNextFrame 250 (window3\<lparr>radarFrames := [frame0840]\<rparr>)) = None \<and>
   frameTimer (advanceFrame (window3\<lparr>radarFrames := [frame0840]\<rparr>)) = None \<and>
   bom_map bomCard2 \<and> int (length (mapLayers bomCard2)) = bom_frame_count bomCard2 \<and>
   bom_frame bomCard2 = At 1 \<and>
   bom_frame (changeRadarFrame bomCard2) = At 0 \<and> bom_frameTimer (changeRadarFrame bomCard2) = Some 250 \<and>
   bom_map bomCardExtra \<and> bom_frame_count bomCardExtra < int (length (mapLayers bomCardExtra)) \<and>
   bom_frame bomCardExtra = At 1 \<and>
   bom_frame (changeRadarFrame bomCardExtra) = At 1 \<and>
   mapLayers (changeRadarFrame bomCardExtra) = [''2026-02-15T08:35:00Z'', ''2026-02-15T08:40:00Z''] \<and>
   bom_frameTimer (changeRadarFrame bomCardExtra) = Some 1000 \<and>
   bom_frameTimer (changeRadarFrame bomCard1) = Some 1000 \<and>
   bom_frame (changeRadarFrame (bomCard1\<lparr>mapLayers := []\<rparr>)) = NotANumber \<and>
   bom_frameTimer (changeRadarFrame (bomCard1\<lparr>mapLayers := []\<rparr>)) = Some 250 \<and>
   changeRadarFrame (bomCard1\<lparr>bom_map := False\<rparr>) = bomCard1\<lparr>bom_map := False\<rparr>"
  using playback_advance_rule [where s = window3 and c = sampleConfig and delayMs = 250
      and t = bomCard2 and i = 1]
    playback_advance_rule [where s = "window3\<lparr>radarFrames := [frame0840]\<rparr>" and c = sampleConfig
      and delayMs = 250 and t = bomCardExtra and i = 1]
    playback_advance_rule [where s = window3 and c = sampleConfig and delayMs = 250
      and t = bomCard1 and i = 0]
    playback_advance_rule [where s = window3 and c = sampleConfig and delayMs = 250
      and t = "bomCard1\<lparr>mapLayers := []\<rparr>" and i = 0]
    playback_advance_rule [where s = window3 and c = sampleConfig and delayMs = 250
      and t = "bomCard1\<lparr>bom_map := False\<rparr>" and i = 0]
  by (simp add: window3_def sampleConfig_def bomCard2_def bomCardExtra_def bomCard1_def)

text \<open>
  The interval callback of the WMTS card departs from the rule in two places.
  With one layer more than \<open>frame_count\<close> (three layers, index 1) the oldest layer
  is dropped and the index stays 1, where \<open>(1 + 1) mod 3 = 2\<close>; and with a single
  layer the interval is armed again, with the restart delay.
\<close>

theorem changeRadarFrame_counterexample:
  "length (mapLayers bomCardExtra) = 3 \<and> bom_frame bomCardExtra = At 1 \<and>
   bom_frame (changeRadarFrame bomCardExtra) = At 1 \<and>
   length (mapLayers (changeRadarFrame bomCardExtra)) = 2 \<and>
   length (mapLayers bomCard1) = 1 \<and>
   bom_frameTimer (changeRadarFrame bomCard1) = Some 1000"
  by (simp add: bomCardExtra_def bomCard1_def bomCard2_def changeRadarFrame_def Let_def js_rem_def
      at_index_def setLayerOpacity_def bom_removeRadarLayer_def bom_getOverlayOpacity_def)

section \<open>Properties of the frame window\<close>

subsection \<open>Array helpers\<close>

lemma findIndex_bounds: "- 1 \<le> findIndex p xs \<and> findIndex p xs < int (length xs)"
  by (induction xs) (auto simp: Let_def)

lemma findIndex_neg_iff: "findIndex p xs < 0 \<longleftrightarrow> (\<forall>v \<in> set xs. \<not> p v)"
  using findIndex_bounds [of p] by (induction xs) (auto simp: Let_def)

lemma findIndex_takeWhile:
  "\<exists>v \<in> set xs. p v \<Longrightarrow> findIndex p xs = int (length (takeWhile (\<lambda>v. \<not> p v) xs))"
  by (induction xs) (auto simp: Let_def findIndex_neg_iff)

text \<open>Slicing just behind the first match leaves what follows that element.\<close>

lemma slice_after_findIndex:
  assumes "\<exists>v \<in> set xs. p v"
  shows "slice (findIndex p xs + 1) xs = tl (dropWhile (\<lambda>v. \<not> p v) xs)"
proof -
  have "slice (findIndex p xs + 1) xs = drop (Suc (length (takeWhile (\<lambda>v. \<not> p v) xs))) xs"
    using assms by (simp add: slice_def findIndex_takeWhile nat_add_distrib)
  also have "\<dots> = tl (drop (length (takeWhile (\<lambda>v. \<not> p v) xs)) xs)"
    by (simp add: drop_Suc tl_drop)
  also have "\<dots> = tl (dropWhile (\<lambda>v. \<not> p v) xs)"
    by (simp add: dropWhile_eq_drop)
  finally show ?thesis .
qed

lemma slice_last_frames:
  "0 \<le> n \<Longrightarrow> slice (max (int (length xs) - n) 0) xs = drop (length xs - nat n) xs"
  by (simp add: slice_def max_def nat_diff_distrib')

text \<open>
  When no earlier element matches what the last one matches, the first match
  is the last element; this is so in a list of distinct ids.
\<close>

lemma findIndex_last_unique:
  assumes "xs \<noteq> []" and "p (last xs)" and "\<forall>v \<in> set (butlast xs). \<not> p v"
  shows "findIndex p xs = int (length xs) - 1"
  using assms
proof (induction xs)
  case Nil
  then show ?case by simp
next
  case (Cons v vs)
  show ?case
  proof (cases "vs = []")
    case True
    with Cons.prems show ?thesis by simp
  next
    case False
    with Cons.prems have "\<not> p v" "p (last vs)" "\<forall>v \<in> set (butlast vs). \<not> p v" by auto
    with False Cons.IH have "findIndex p vs = int (length vs) - 1" by simp
    with \<open>\<not> p v\<close> False show ?thesis by (simp add: Let_def)
  qed
qed

lemma distinct_last_unique:
  assumes "xs \<noteq> []" and "distinct (map f xs)"
  shows "\<forall>v \<in> set (butlast xs). f v \<noteq> f (last xs)"
proof -
  from assms(1) have xs: "xs = butlast xs @ [last xs]" by simp
  from assms(2) have "distinct (map f (butlast xs @ [last xs]))" using xs by simp
  then show ?thesis by (auto simp: image_iff)
qed

subsection \<open>Appending and evicting\<close>

lemma fold_addFrame:
  assumes "mapController s \<noteq> None"
  shows "radarFrames (fold addFrame fs s) = radarFrames s @ fs \<and>
         layerIds (fold addFrame fs s) = layerIds s @ map rf_id fs \<and>
         frameIndex (fold addFrame fs s) = frameIndex s \<and>
         card_config (fold addFrame fs s) = card_config s \<and>
         frameTimer (fold addFrame fs s) = frameTimer s \<and>
         snapshotTimer (fold addFrame fs s) = snapshotTimer s \<and>
         retryCount (fold addFrame fs s) = retryCount s \<and>
         mapController (fold addFrame fs s) \<noteq> None"
  using assms
proof (induction fs arbitrary: s)
  case Nil
  then show ?case by simp
next
  case (Cons f fs)
  from Cons.prems obtain mc where mc: "mapController s = Some mc" by auto
  then have "mapController (addFrame f s) \<noteq> None" by (simp add: addFrame_def)
  from Cons.IH [OF this] mc show ?case by (simp add: addFrame_def)
qed

lemma evictOne_fields:
  "radarFrames (evictOne s) = tl (radarFrames s)"
  "layerIds (evictOne s) = tl (layerIds s)"
  "radarFrames s \<noteq> [] \<Longrightarrow>
     frameIndex (evictOne s) = (if frameIndex s > 0 then frameIndex s - 1 else frameIndex s)"
  "card_config (evictOne s) = card_config s"
  by (simp_all add: evictOne_def Let_def split: option.splits list.splits)

text \<open>
  With a capacity that is not negative the eviction loop ends; it has dropped
  the frames in excess from the front, and taken the index back by one for each
  of them while it was positive.
\<close>

lemma evictFrames_result:
  assumes "0 \<le> frameCount"
  shows "\<exists>s'. evictFrames frameCount s = Some s' \<and>
     radarFrames s' = drop (length (radarFrames s) - nat frameCount) (radarFrames s) \<and>
     layerIds s' = drop (length (radarFrames s) - nat frameCount) (layerIds s) \<and>
     frameIndex s' = (if frameIndex s > 0
                      then max 0 (frameIndex s - int (length (radarFrames s) - nat frameCount))
                      else frameIndex s) \<and>
     card_config s' = card_config s"
  using assms
proof (induction frameCount s rule: evictFrames.induct)
  case (1 frameCount s)
  show ?case
  proof (cases "int (length (radarFrames s)) > frameCount")
    case False
    then have "length (radarFrames s) - nat frameCount = 0" by linarith
    with False show ?thesis by (simp add: evictFrames.simps [of frameCount s])
  next
    case True
    with "1.prems" have ne: "radarFrames s \<noteq> []" by auto
    from "1.IH" [OF True ne "1.prems"] obtain s' where
      s': "evictFrames frameCount (evictOne s) = Some s'"
        "radarFrames s' = drop (length (radarFrames (evictOne s)) - nat frameCount) (radarFrames (evictOne s))"
        "layerIds s' = drop (length (radarFrames (evictOne s)) - nat frameCount) (layerIds (evictOne s))"
        "frameIndex s' = (if frameIndex (evictOne s) > 0
            then max 0 (frameIndex (evictOne s) - int (length (radarFrames (evictOne s)) - nat frameCount))
            else frameIndex (evictOne s))"
        "card_config s' = card_config (evictOne s)"
      by blast
    from ne obtain a rest where ar: "radarFrames s = a # rest"
      by (cases "radarFrames s") auto
    from True "1.prems" have "nat frameCount \<le> length rest"
      unfolding ar by simp
    then have k: "length (radarFrames s) - nat frameCount
        = Suc (length (tl (radarFrames s)) - nat frameCount)"
      unfolding ar by (simp add: Suc_diff_le)
    have "evictFrames frameCount s = Some s'"
      using True ne s'(1) by (simp add: evictFrames.simps [of frameCount s])
    moreover have "radarFrames s' = drop (length (radarFrames s) - nat frameCount) (radarFrames s)"
      unfolding s'(2) k by (simp add: evictOne_fields drop_Suc tl_drop)
    moreover have "layerIds s' = drop (length (radarFrames s) - nat frameCount) (layerIds s)"
      unfolding s'(3) k by (simp add: evictOne_fields drop_Suc tl_drop)
    moreover have "frameIndex s' = (if frameIndex s > 0
                      then max 0 (frameIndex s - int (length (radarFrames s) - nat frameCount))
                      else frameIndex s)"
      unfolding s'(4) k using ne by (auto simp: evictOne_fields max_def)
    moreover have "card_config s' = card_config s"
      by (simp add: s'(5) evictOne_fields)
    ultimately show ?thesis by blast
  qed
qed

subsection \<open>Merging a snapshot\<close>

text \<open>The frames that \<open>mergeNewFrames\<close> sets out to add, in terms of the two lists.\<close>

lemma mergeNewFrames_unfold:
  assumes "0 \<le> frameCount"
  shows "mergeNewFrames allFrames frameCount s =
    (let framesToAdd =
        (if radarFrames s \<noteq> [] \<and> (\<exists>f \<in> set allFrames. rf_id f = rf_id (last (radarFrames s)))
         then tl (dropWhile (\<lambda>f. rf_id f \<noteq> rf_id (last (radarFrames s))) allFrames)
         else drop (length allFrames - nat frameCount) allFrames)
     in if length framesToAdd = 0 then Some s
        else (case evictFrames frameCount (fold addFrame framesToAdd s) of
                None \<Rightarrow> None
              | Some s' \<Rightarrow>
                  Some (s'\<lparr>frameIndex :=
                             (if length (radarFrames s') > 0 then int (length (radarFrames s')) - 1
                              else 0)\<rparr>)))"
proof (cases "radarFrames s \<noteq> [] \<and> (\<exists>f \<in> set allFrames. rf_id f = rf_id (last (radarFrames s)))")
  case True
  then have ex: "\<exists>f \<in> set allFrames. rf_id f = rf_id (last (radarFrames s))" by simp
  then have "\<not> findIndex (\<lambda>frame. rf_id frame = rf_id (last (radarFrames s))) allFrames < 0"
    by (simp add: findIndex_neg_iff)
  then have "mergeNewFrames allFrames frameCount s =
      (let framesToAdd = tl (dropWhile (\<lambda>f. rf_id f \<noteq> rf_id (last (radarFrames s))) allFrames)
       in if length framesToAdd = 0 then Some s
        else (case evictFrames frameCount (fold addFrame framesToAdd s) of
                None \<Rightarrow> None
              | Some s' \<Rightarrow>
                  Some (s'\<lparr>frameIndex :=
                             (if length (radarFrames s') > 0 then int (length (radarFrames s')) - 1
                              else 0)\<rparr>)))"
    unfolding mergeNewFrames_def Let_def
    using True slice_after_findIndex [OF ex] by (simp add: not_less)
  then show ?thesis unfolding if_P [OF True] .
next
  case False
  then have "radarFrames s = [] \<or>
      findIndex (\<lambda>frame. rf_id frame = rf_id (last (radarFrames s))) allFrames < 0"
    by (auto simp: findIndex_neg_iff)
  then have "mergeNewFrames allFrames frameCount s =
      (let framesToAdd = drop (length allFrames - nat frameCount) allFrames
       in if length framesToAdd = 0 then Some s
        else (case evictFrames frameCount (fold addFrame framesToAdd s) of
                None \<Rightarrow> None
              | Some s' \<Rightarrow>
                  Some (s'\<lparr>frameIndex :=
                             (if length (radarFrames s') > 0 then int (length (radarFrames s')) - 1
                              else 0)\<rparr>)))"
    unfolding mergeNewFrames_def Let_def
    using slice_last_frames [OF assms, of allFrames] by auto
  then show ?thesis unfolding if_not_P [OF False] .
qed

text \<open>
  Claim C2 as the code has it, for a card with its map controller and a
  capacity that is not negative.  The frames to add are those strictly after
  the first frame of the list that carries the id of the window's newest frame,
  or, when the window is empty or that id is not in the list, the last
  \<open>frameCount\<close> frames of the list.  When there is none to add the call returns
  at once and the card is unchanged, the index included.  Otherwise the frames
  are appended; the eviction loop ends, has dropped the excess from the front
  and stepped the index back once for each eviction while it was positive; and
  at last the index is set to the last position.
\<close>

theorem mergeNewFrames_contract:
  fixes s :: Card and allFrames :: "RadarFrame list" and frameCount :: int
  defines "toAdd \<equiv>
    (if radarFrames s \<noteq> [] \<and> (\<exists>f \<in> set allFrames. rf_id f = rf_id (last (radarFrames s)))
     then tl (dropWhile (\<lambda>f. rf_id f \<noteq> rf_id (last (radarFrames s))) allFrames)
     else drop (length allFrames - nat frameCount) allFrames)"
  defines "excess \<equiv> length (radarFrames s @ toAdd) - nat frameCount"
  assumes mc: "mapController s \<noteq> None" and cap: "0 \<le> frameCount"
  shows "(toAdd = [] \<longrightarrow> mergeNewFrames allFrames frameCount s = Some s) \<and>
    (toAdd \<noteq> [] \<longrightarrow>
      (\<exists>s1 s2. s1 = fold addFrame toAdd s \<and>
         radarFrames s1 = radarFrames s @ toAdd \<and> frameIndex s1 = frameIndex s \<and>
         evictFrames frameCount s1 = Some s2 \<and>
         radarFrames s2 = drop excess (radarFrames s @ toAdd) \<and>
         layerIds s2 = drop excess (layerIds s @ map rf_id toAdd) \<and>
         frameIndex s2 = (if frameIndex s > 0 then max 0 (frameIndex s - int excess) else frameIndex s) \<and>
         mergeNewFrames allFrames frameCount s =
           Some (s2\<lparr>frameIndex := (if radarFrames s2 = [] then 0
                                     else int (length (radarFrames s2)) - 1)\<rparr>)))"
proof (intro conjI impI)
  assume "toAdd = []"
  then show "mergeNewFrames allFrames frameCount s = Some s"
    unfolding mergeNewFrames_unfold [OF cap] toAdd_def by (simp add: Let_def)
next
  assume ne: "toAdd \<noteq> []"
  define s1 where "s1 = fold addFrame toAdd s"
  note app = fold_addFrame [OF mc, of toAdd, folded s1_def]
  from evictFrames_result [OF cap, of s1] obtain s2 where
    s2: "evictFrames frameCount s1 = Some s2"
      "radarFrames s2 = drop (length (radarFrames s1) - nat frameCount) (radarFrames s1)"
      "layerIds s2 = drop (length (radarFrames s1) - nat frameCount) (layerIds s1)"
      "frameIndex s2 = (if frameIndex s1 > 0
          then max 0 (frameIndex s1 - int (length (radarFrames s1) - nat frameCount))
          else frameIndex s1)"
    by blast
  have m: "mergeNewFrames allFrames frameCount s =
      Some (s2\<lparr>frameIndex := (if radarFrames s2 = [] then 0 else int (length (radarFrames s2)) - 1)\<rparr>)"
    unfolding mergeNewFrames_unfold [OF cap] toAdd_def [symmetric]
    using ne s2(1) by (simp add: Let_def s1_def)
  show "\<exists>s1 s2. s1 = fold addFrame toAdd s \<and>
         radarFrames s1 = radarFrames s @ toAdd \<and> frameIndex s1 = frameIndex s \<and>
         evictFrames frameCount s1 = Some s2 \<and>
         radarFrames s2 = drop excess (radarFrames s @ toAdd) \<and>
         layerIds s2 = drop excess (layerIds s @ map rf_id toAdd) \<and>
         frameIndex s2 = (if frameIndex s > 0 then max 0 (frameIndex s - int excess) else frameIndex s) \<and>
         mergeNewFrames allFrames frameCount s =
           Some (s2\<lparr>frameIndex := (if radarFrames s2 = [] then 0
                                     else int (length (radarFrames s2)) - 1)\<rparr>)"
    using app s2 m unfolding excess_def s1_def [symmetric]
    by (intro exI [of _ s1] exI [of _ s2]) simp
qed

text \<open>
  The contract on the sample window of two frames at capacity two, merged with
  a snapshot that knows one newer frame: the newer frame is appended, the oldest
  one evicted, and the index is the last position.
\<close>

theorem mergeNewFrames_contract_witness:
  "mapController (window2\<lparr>frameIndex := 1\<rparr>) \<noteq> None \<and> (0::int) \<le> 2 \<and>
   map_option radarFrames
     (mergeNewFrames [frame0820, frame0830, frame0840] 2 (window2\<lparr>frameIndex := 1\<rparr>))
     = Some [frame0830, frame0840] \<and>
   map_option frameIndex
     (mergeNewFrames [frame0820, frame0830, frame0840] 2 (window2\<lparr>frameIndex := 1\<rparr>))
     = Some 1"
proof -
  have mc: "mapController (window2\<lparr>frameIndex := 1\<rparr>) \<noteq> None"
    by (simp add: window2_def)
  have cap: "(0::int) \<le> 2" by simp
  from mergeNewFrames_contract [OF mc cap, of "[frame0820, frame0830, frame0840]"]
  show ?thesis
    by (auto simp: window2_def frame0820_def frame0830_def frame0840_def)
qed

text \<open>
  The index is not always reset: when the snapshot holds nothing newer than the
  window, the call returns at once.  Here the window of two frames shows its
  first frame, and it still does after the merge.
\<close>

theorem mergeNewFrames_no_reset_counterexample:
  "length (radarFrames window2) = 2 \<and> frameIndex window2 = 0 \<and>
   mergeNewFrames [frame0820, frame0830] 3 window2 = Some window2"
  by (simp add: window2_def mergeNewFrames_def Let_def slice_def
      frame0820_def frame0830_def)

text \<open>
  Claim C7 as the code has it.  When the newest id of the snapshot is the id of
  the window's newest frame and no earlier frame of the snapshot carries that
  id, \<open>mergeNewFrames\<close> returns the card as it was: length, contents and index are unchanged, and so they are after a
  second call with the same snapshot, which therefore adds no id twice.
\<close>

theorem mergeNewFrames_idempotent:
  assumes "radarFrames s \<noteq> []" and "allFrames \<noteq> []"
    and "rf_id (last allFrames) = rf_id (last (radarFrames s))"
    and "\<forall>f \<in> set (butlast allFrames). rf_id f \<noteq> rf_id (last allFrames)"
  shows "mergeNewFrames allFrames frameCount s = Some s \<and>
    Option.bind (mergeNewFrames allFrames frameCount s) (mergeNewFrames allFrames frameCount) = Some s"
proof -
  have "findIndex (\<lambda>frame. rf_id frame = rf_id (last allFrames)) allFrames = int (length allFrames) - 1"
    using assms(2,4) by (intro findIndex_last_unique) simp_all
  then have "mergeNewFrames allFrames frameCount s = Some s"
    using assms(1,3) by (simp add: mergeNewFrames_def Let_def slice_def)
  then show ?thesis by simp
qed

theorem mergeNewFrames_idempotent_witness:
  "radarFrames window2 \<noteq> [] \<and>
   rf_id (last [frame0820, frame0830]) = rf_id (last (radarFrames window2)) \<and>
   rf_id frame0820 \<noteq> rf_id frame0830 \<and>
   mergeNewFrames [frame0820, frame0830] 3 window2 = Some window2"
proof -
  have a: "radarFrames window2 \<noteq> []" "[frame0820, frame0830] \<noteq> []"
    "rf_id (last [frame0820, frame0830]) = rf_id (last (radarFrames window2))"
    "\<forall>f \<in> set (butlast [frame0820, frame0830]). rf_id f \<noteq> rf_id (last [frame0820, frame0830])"
    and d: "rf_id frame0820 \<noteq> rf_id frame0830"
    by (simp_all add: window2_def frame0820_def frame0830_def)
  from mergeNewFrames_idempotent [OF a] a d show ?thesis by simp
qed

text \<open>The same for a snapshot whose ids are distinct, whatever else it holds.\<close>

lemma mergeNewFrames_unchanged_distinct:
  assumes "radarFrames s \<noteq> []" and "allFrames \<noteq> []"
    and "rf_id (last allFrames) = rf_id (last (radarFrames s))"
    and "distinct (map rf_id allFrames)"
  shows "mergeNewFrames allFrames frameCount s = Some s"
proof -
  have "findIndex (\<lambda>frame. rf_id frame = rf_id (last allFrames)) allFrames = int (length allFrames) - 1"
    using assms(2) distinct_last_unique [OF assms(2,4)] by (intro findIndex_last_unique) simp_all
  then show ?thesis
    using assms(1,3) by (simp add: mergeNewFrames_def Let_def slice_def)
qed

text \<open>
  Without that condition the merge is no identity.  The snapshot lists 08:30
  twice, so its newest id is the id of the window's newest frame; the first
  entry of that id is found, the second one is appended, the window holds the
  id twice and the index moves from 0 to 2.
\<close>

theorem mergeNewFrames_duplicate_counterexample:
  "rf_id (last [frame0820, frame0830, frame0830again]) = rf_id (last (radarFrames window2)) \<and>
   frameIndex window2 = 0 \<and>
   map_option radarFrames (mergeNewFrames [frame0820, frame0830, frame0830again] 3 window2)
     = Some [frame0820, frame0830, frame0830again] \<and>
   map_option frameIndex (mergeNewFrames [frame0820, frame0830, frame0830again] 3 window2) = Some 2 \<and>
   rf_id frame0830again = rf_id frame0830"
proof -
  have r: "map_option radarFrames (mergeNewFrames [frame0820, frame0830, frame0830again] 3 window2)
      = Some [frame0820, frame0830, frame0830again]"
    by code_simp
  have i: "map_option frameIndex (mergeNewFrames [frame0820, frame0830, frame0830again] 3 window2) = Some 2"
    by code_simp
  show ?thesis
    using r i by (simp add: window2_def frame0820_def frame0830_def frame0830again_def)
qed

text \<open>
  A consequence for a window that is full: a merge that adds one frame to a
  window of \<open>frameCount\<close> frames leaves \<open>frameCount\<close> frames, the oldest one gone,
  and the index at the last position.
\<close>

lemma mergeNewFrames_full_window:
  assumes mc: "mapController s \<noteq> None" and cap: "0 < frameCount"
    and full: "length (radarFrames s) = nat frameCount"
    and frames: "allFrames = older @ [known, newest]"
    and known: "rf_id known = rf_id (last (radarFrames s))"
    and older: "\<forall>f \<in> set older. rf_id f \<noteq> rf_id known"
  shows "\<exists>s'. mergeNewFrames allFrames frameCount s = Some s' \<and>
    radarFrames s' = tl (radarFrames s) @ [newest] \<and>
    length (radarFrames s') = nat frameCount \<and>
    frameIndex s' = frameCount - 1"
proof -
  from cap full have ne: "radarFrames s \<noteq> []" by auto
  have dw: "dropWhile (\<lambda>f. rf_id f \<noteq> rf_id (last (radarFrames s))) allFrames = [known, newest]"
    unfolding frames using older known by (simp add: dropWhile_append2)
  have toAdd: "(if radarFrames s \<noteq> [] \<and> (\<exists>f \<in> set allFrames. rf_id f = rf_id (last (radarFrames s)))
       then tl (dropWhile (\<lambda>f. rf_id f \<noteq> rf_id (last (radarFrames s))) allFrames)
       else drop (length allFrames - nat frameCount) allFrames) = [newest]"
  proof -
    have c: "radarFrames s \<noteq> [] \<and> (\<exists>f \<in> set allFrames. rf_id f = rf_id (last (radarFrames s)))"
      using ne known frames by auto
    show ?thesis unfolding if_P [OF c] dw by simp
  qed
  from cap have cap0: "0 \<le> frameCount" by simp
  let ?s1 = "fold addFrame [newest] s"
  note app = fold_addFrame [OF mc, of "[newest]"]
  from evictFrames_result [OF cap0, of ?s1] obtain s2 where
    s2: "evictFrames frameCount ?s1 = Some s2"
      "radarFrames s2 = drop (length (radarFrames ?s1) - nat frameCount) (radarFrames ?s1)"
    by blast
  from app full have ex: "length (radarFrames ?s1) - nat frameCount = 1" by simp
  have r2: "radarFrames s2 = tl (radarFrames s) @ [newest]"
    using s2(2) app ne unfolding ex by (cases "radarFrames s") simp_all
  have m: "mergeNewFrames allFrames frameCount s =
      Some (s2\<lparr>frameIndex := (if length (radarFrames s2) > 0 then int (length (radarFrames s2)) - 1 else 0)\<rparr>)"
    unfolding mergeNewFrames_unfold [OF cap0] toAdd using s2(1) by (simp add: Let_def)
  have len: "length (radarFrames s2) = nat frameCount"
    using r2 full ne by (cases "radarFrames s") simp_all
  show ?thesis
    using m r2 len cap by (intro exI [of _ "s2\<lparr>frameIndex := (if length (radarFrames s2) > 0 then int (length (radarFrames s2)) - 1 else 0)\<rparr>"]) simp
qed

section \<open>Properties of polling and retry\<close>

text \<open>
  Claim C8.  The next poll is armed \<open>max(T + 10 min + 15 s - now, 5000)\<close>
  milliseconds ahead: 615000 when \<open>now = T\<close>, and the floor of 5000 as soon as
  \<open>now\<close> is at least \<open>T + 610000\<close>.
\<close>

theorem getNextSnapshotDelayMs_rule:
  "getNextSnapshotDelayMs T nowMs = max (T + 10 * 60 * 1000 + 15 * 1000 - nowMs) 5000 \<and>
   getNextSnapshotDelayMs T T = 10 * 60 * 1000 + 15 * 1000 \<and>
   (T + 610000 \<le> nowMs \<longrightarrow> getNextSnapshotDelayMs T nowMs = 5000)"
  by (simp add: getNextSnapshotDelayMs_def Let_def)

theorem getNextSnapshotDelayMs_rule_witness:
  "(100000::int) + 610000 \<le> 100000 + 20 * 60 * 1000 \<and>
   getNextSnapshotDelayMs 100000 (100000 + 20 * 60 * 1000) = 5000 \<and>
   getNextSnapshotDelayMs 100000 100000 = 615000"
  using getNextSnapshotDelayMs_rule [of 100000 "100000 + 20 * 60 * 1000"]
    getNextSnapshotDelayMs_rule [of 100000 100000]
  by simp

text \<open>The retry delay: the values of the first counts, and the cap.\<close>

lemma getRetryDelayMs_values:
  "getRetryDelayMs 0 = 5000" "getRetryDelayMs 1 = 10000" "getRetryDelayMs 2 = 20000"
  "getRetryDelayMs 3 = 40000" "getRetryDelayMs 4 = 60000"
  by (simp_all add: getRetryDelayMs_def)

lemma getRetryDelayMs_le: "getRetryDelayMs n \<le> 60000"
  by (simp add: getRetryDelayMs_def)

lemma getRetryDelayMs_capped: "4 \<le> n \<Longrightarrow> getRetryDelayMs n = 60000"
proof -
  assume "4 \<le> n"
  then have "(2::int) ^ 4 \<le> 2 ^ n"
    by (intro power_increasing) simp_all
  then have "(60000::int) \<le> 5000 * 2 ^ n" by simp
  then show ?thesis by (simp add: getRetryDelayMs_def)
qed

text \<open>The WMTS card clamps its counter at \<open>MAX_RETRY_COUNT\<close>.\<close>

lemma scheduleCapabilitiesRetry_bounded:
  "capabilitiesRetryCount (scheduleCapabilitiesRetry s) \<le> 5"
  by (simp add: scheduleCapabilitiesRetry_def Let_def MAX_RETRY_COUNT_def)

lemma retryCount_scheduleRetry: "retryCount (scheduleRetry s) = retryCount s + 1"
  by (simp add: scheduleRetry_def Let_def)

text \<open>
  Claim C6.  The retry armed by \<open>scheduleRetry\<close> has the delay
  \<open>min(5000 * 2^n, 60000)\<close> for the count \<open>n\<close> at hand, but the counter is not
  clamped: after \<open>k\<close> failures in a row it has grown by \<open>k\<close>, whatever \<open>k\<close> is.
\<close>

theorem scheduleRetry_counter_unbounded:
  "snapshotTimer (scheduleRetry s) = Some (Retry (min (5000 * 2 ^ retryCount s) 60000)) \<and>
   retryCount ((scheduleRetry ^^ k) s) = retryCount s + k"
proof
  show "snapshotTimer (scheduleRetry s) = Some (Retry (min (5000 * 2 ^ retryCount s) 60000))"
    by (simp add: scheduleRetry_def Let_def getRetryDelayMs_def)
  show "retryCount ((scheduleRetry ^^ k) s) = retryCount s + k"
    by (induction k) (simp_all add: retryCount_scheduleRetry)
qed

subsection \<open>A failed poll\<close>

lemma scheduleRetry_fields:
  "radarFrames (scheduleRetry s) = radarFrames s"
  "frameIndex (scheduleRetry s) = frameIndex s"
  "layerIds (scheduleRetry s) = layerIds s"
  "mapController (scheduleRetry s) = mapController s"
  "frameTimer (scheduleRetry s) = frameTimer s"
  "card_config (scheduleRetry s) = card_config s"
  "snapshotTimer (scheduleRetry s) = Some (Retry (getRetryDelayMs (retryCount s)))"
  by (simp_all add: scheduleRetry_def Let_def)

text \<open>
  Claim C9.  A poll fails when the fetch rejects, when the response is not ok,
  and when the manifest lists no frame.  On every failed poll of a card with its
  configuration and map controller the frames, their layers, the index and the
  frame timer are left as they were, and a retry is armed with the delay of the
  current retry count.
\<close>

theorem refreshRadarSnapshot_failure_atomic:
  assumes "card_config s \<noteq> None" and "mapController s \<noteq> None"
  shows "isl (fetchRadarSnapshot Rejected) \<and>
    isl (fetchRadarSnapshot (Response False status body)) \<and>
    isl (fetchRadarSnapshot (Response True status (Some \<lparr>api_host = h, api_radar = None\<rparr>))) \<and>
    isl (fetchRadarSnapshot (Response True status (Some \<lparr>api_host = h, api_radar = Some None\<rparr>))) \<and>
    isl (fetchRadarSnapshot (Response True status (Some \<lparr>api_host = h, api_radar = Some (Some [])\<rparr>))) \<and>
    (isl (fetchRadarSnapshot outcome) \<longrightarrow>
      refreshRadarSnapshot resetFrames outcome nowMs s = Some (scheduleRetry s) \<and>
      radarFrames (scheduleRetry s) = radarFrames s \<and>
      frameIndex (scheduleRetry s) = frameIndex s \<and>
      layerIds (scheduleRetry s) = layerIds s \<and>
      mapController (scheduleRetry s) = mapController s \<and>
      frameTimer (scheduleRetry s) = frameTimer s \<and>
      snapshotTimer (scheduleRetry s) = Some (Retry (getRetryDelayMs (retryCount s))))"
proof -
  have fails: "isl (fetchRadarSnapshot Rejected)"
    "isl (fetchRadarSnapshot (Response False status body))"
    "isl (fetchRadarSnapshot (Response True status (Some \<lparr>api_host = h, api_radar = None\<rparr>)))"
    "isl (fetchRadarSnapshot (Response True status (Some \<lparr>api_host = h, api_radar = Some None\<rparr>)))"
    "isl (fetchRadarSnapshot (Response True status (Some \<lparr>api_host = h, api_radar = Some (Some [])\<rparr>)))"
    by (simp_all add: fetchRadarSnapshot_def Let_def)
  have "refreshRadarSnapshot resetFrames outcome nowMs s = Some (scheduleRetry s)"
    if "isl (fetchRadarSnapshot outcome)"
  proof -
    from that obtain err where "fetchRadarSnapshot outcome = Inl err"
      by (cases "fetchRadarSnapshot outcome") auto
    with assms show ?thesis
      by (auto simp: refreshRadarSnapshot_def)
  qed
  with fails show ?thesis by (simp add: scheduleRetry_fields)
qed

theorem refreshRadarSnapshot_failure_atomic_witness:
  "card_config window3 \<noteq> None \<and> mapController window3 \<noteq> None \<and>
   map_option radarFrames (refreshRadarSnapshot False (Response False 503 None) 1771145230000 window3)
     = Some [frame0820, frame0830, frame0840] \<and>
   map_option frameIndex (refreshRadarSnapshot False (Response False 503 None) 1771145230000 window3)
     = Some 0 \<and>
   map_option snapshotTimer (refreshRadarSnapshot False (Response False 503 None) 1771145230000 window3)
     = Some (Some (Retry 5000))"
proof -
  have a: "card_config window3 \<noteq> None" "mapController window3 \<noteq> None"
    by (simp_all add: window3_def)
  from refreshRadarSnapshot_failure_atomic [OF a, of 503 None _ "Response False 503 None" False 1771145230000]
  show ?thesis using a by (simp add: window3_def getRetryDelayMs_def)
qed

section \<open>Properties of the configuration\<close>

lemma clamp_range: "lo \<le> hi \<Longrightarrow> lo \<le> clamp v lo hi \<and> clamp v lo hi \<le> hi"
  by (auto simp: clamp_def)

text \<open>
  Each of the white-space sequences is removed at both ends and on its own,
  and white space inside the text stays.
\<close>

lemma trim_white_space:
  "list_all (\<lambda>w. trim (w @ ''a b'' @ w) = ''a b'' \<and> trim w = [] \<and> trim (w @ w) = []) whiteSpace"
  by code_simp

text \<open>
  Claim C10 as the code has it.  \<open>normalizeConfig\<close> throws exactly when
  \<open>requireEntity\<close> is set and the entity, trimmed if it is a string and empty
  otherwise, is empty.  Otherwise each numeric field is read through
  \<open>Number()\<close>: \<open>zoom_level\<close>, \<open>frame_count\<close>, \<open>frame_delay\<close> and \<open>restart_delay\<close> are
  that number rounded and then clamped to [3, 10], [1, 24], [100, 5000] and
  [100, 10000], with the defaults 8, 7, 250 and 1000 when it is not finite;
  \<open>overlay_transparency\<close> is that number clamped to [0, 90] without rounding,
  with the default 0.  \<open>Number()\<close> of an absent value is \<open>NaN\<close>, so an absent field
  takes its default, and so does a number that is \<open>NaN\<close> or infinite; \<open>null\<close> and
  \<open>false\<close> are 0 and \<open>true\<close> is 1, so these are clamped like the numbers they are
  read as.
\<close>

theorem normalizeConfig_ranges:
  "(normalizeConfig CARD_TYPE stringToNumber config options = Inl RequiredConfigurationMissing \<longleftrightarrow>
      requireEntity options = Some True \<and>
      (case p_entity config of Text e \<Rightarrow> trim e | _ \<Rightarrow> []) = []) \<and>
   (\<forall>c. normalizeConfig CARD_TYPE stringToNumber config options = Inr c \<longrightarrow>
      entity c = (case p_entity config of Text e \<Rightarrow> trim e | _ \<Rightarrow> []) \<and>
      zoom_level c = Some (case toNumber stringToNumber (p_zoom_level config) of
                             Finite v \<Rightarrow> min 10 (max 3 (round v)) | _ \<Rightarrow> 8) \<and>
      frame_count c = Some (case toNumber stringToNumber (p_frame_count config) of
                              Finite v \<Rightarrow> min 24 (max 1 (round v)) | _ \<Rightarrow> 7) \<and>
      frame_delay c = Some (case toNumber stringToNumber (p_frame_delay config) of
                              Finite v \<Rightarrow> min 5000 (max 100 (round v)) | _ \<Rightarrow> 250) \<and>
      restart_delay c = Some (case toNumber stringToNumber (p_restart_delay config) of
                                Finite v \<Rightarrow> min 10000 (max 100 (round v)) | _ \<Rightarrow> 1000) \<and>
      overlay_transparency c = Some (case toNumber stringToNumber (p_overlay_transparency config) of
                                       Finite v \<Rightarrow> min 90 (max 0 v) | _ \<Rightarrow> 0) \<and>
      (\<exists>z n d r t. zoom_level c = Some z \<and> 3 \<le> z \<and> z \<le> 10 \<and>
         frame_count c = Some n \<and> 1 \<le> n \<and> n \<le> 24 \<and>
         frame_delay c = Some d \<and> 100 \<le> d \<and> d \<le> 5000 \<and>
         restart_delay c = Some r \<and> 100 \<le> r \<and> r \<le> 10000 \<and>
         overlay_transparency c = Some t \<and> 0 \<le> t \<and> t \<le> 90)) \<and>
   toNumber stringToNumber Undefined = NaN \<and>
   toNumber stringToNumber (Number x) = x \<and>
   toNumber stringToNumber Null = Finite 0 \<and>
   toNumber stringToNumber (Boolean False) = Finite 0 \<and>
   toNumber stringToNumber (Boolean True) = Finite 1 \<and>
   toNumber stringToNumber (Text s) = stringToNumber s \<and>
   toNumber stringToNumber (Structured s) = stringToNumber s"
proof (intro conjI allI impI)
  show "normalizeConfig CARD_TYPE stringToNumber config options = Inl RequiredConfigurationMissing \<longleftrightarrow>
      requireEntity options = Some True \<and>
      (case p_entity config of Text e \<Rightarrow> trim e | _ \<Rightarrow> []) = []"
    by (simp add: normalizeConfig_def Let_def sanitizeEntity_def)
next
  fix c assume r: "normalizeConfig CARD_TYPE stringToNumber config options = Inr c"
  from r show "entity c = (case p_entity config of Text e \<Rightarrow> trim e | _ \<Rightarrow> [])"
    by (auto simp: normalizeConfig_def Let_def sanitizeEntity_def split: if_splits)
  have fin: "toFiniteNumber stringToNumber v =
      (case toNumber stringToNumber v of Finite x \<Rightarrow> Some x | _ \<Rightarrow> None)" for v
    by (simp add: toFiniteNumber_def Let_def)
  from r have z0: "zoom_level c = Some (case toFiniteNumber stringToNumber (p_zoom_level config) of
        Some v \<Rightarrow> clamp (round v) 3 10 | None \<Rightarrow> DEFAULT_ZOOM_LEVEL)"
    and n0: "frame_count c = Some (case toFiniteNumber stringToNumber (p_frame_count config) of
        Some v \<Rightarrow> clamp (round v) 1 24 | None \<Rightarrow> DEFAULT_FRAME_COUNT)"
    and d0: "frame_delay c = Some (case toFiniteNumber stringToNumber (p_frame_delay config) of
        Some v \<Rightarrow> clamp (round v) 100 5000 | None \<Rightarrow> DEFAULT_FRAME_DELAY)"
    and r0: "restart_delay c = Some (case toFiniteNumber stringToNumber (p_restart_delay config) of
        Some v \<Rightarrow> clamp (round v) 100 10000 | None \<Rightarrow> DEFAULT_RESTART_DELAY)"
    and t0: "overlay_transparency c = Some (case toFiniteNumber stringToNumber (p_overlay_transparency config) of
        Some v \<Rightarrow> clamp v 0 90 | None \<Rightarrow> 0)"
    by (auto simp: normalizeConfig_def Let_def split: if_splits)
  show z: "zoom_level c = Some (case toNumber stringToNumber (p_zoom_level config) of
                             Finite v \<Rightarrow> min 10 (max 3 (round v)) | _ \<Rightarrow> 8)"
    by (simp add: z0 fin clamp_def DEFAULT_ZOOM_LEVEL_def split: jsnumber.splits)
  show n: "frame_count c = Some (case toNumber stringToNumber (p_frame_count config) of
                              Finite v \<Rightarrow> min 24 (max 1 (round v)) | _ \<Rightarrow> 7)"
    by (simp add: n0 fin clamp_def DEFAULT_FRAME_COUNT_def split: jsnumber.splits)
  show d: "frame_delay c = Some (case toNumber stringToNumber (p_frame_delay config) of
                              Finite v \<Rightarrow> min 5000 (max 100 (round v)) | _ \<Rightarrow> 250)"
    by (simp add: d0 fin clamp_def DEFAULT_FRAME_DELAY_def split: jsnumber.splits)
  show rd: "restart_delay c = Some (case toNumber stringToNumber (p_restart_delay config) of
                                Finite v \<Rightarrow> min 10000 (max 100 (round v)) | _ \<Rightarrow> 1000)"
    by (simp add: r0 fin clamp_def DEFAULT_RESTART_DELAY_def split: jsnumber.splits)
  show t: "overlay_transparency c = Some (case toNumber stringToNumber (p_overlay_transparency config) of
                                       Finite v \<Rightarrow> min 90 (max 0 v) | _ \<Rightarrow> 0)"
    by (simp add: t0 fin clamp_def split: jsnumber.splits)
  show "\<exists>z n d r t. zoom_level c = Some z \<and> 3 \<le> z \<and> z \<le> 10 \<and>
         frame_count c = Some n \<and> 1 \<le> n \<and> n \<le> 24 \<and>
         frame_delay c = Some d \<and> 100 \<le> d \<and> d \<le> 5000 \<and>
         restart_delay c = Some r \<and> 100 \<le> r \<and> r \<le> 10000 \<and>
         overlay_transparency c = Some t \<and> 0 \<le> t \<and> t \<le> 90"
  proof -
    have "3 \<le> (case v of Finite x \<Rightarrow> min 10 (max 3 (round x)) | _ \<Rightarrow> (8::int)) \<and>
        (case v of Finite x \<Rightarrow> min 10 (max 3 (round x)) | _ \<Rightarrow> (8::int)) \<le> 10" for v
      by (simp split: jsnumber.splits)
    moreover
    have "1 \<le> (case v of Finite x \<Rightarrow> min 24 (max 1 (round x)) | _ \<Rightarrow> (7::int)) \<and>
        (case v of Finite x \<Rightarrow> min 24 (max 1 (round x)) | _ \<Rightarrow> (7::int)) \<le> 24" for v
      by (simp split: jsnumber.splits)
    moreover
    have "100 \<le> (case v of Finite x \<Rightarrow> min 5000 (max 100 (round x)) | _ \<Rightarrow> (250::int)) \<and>
        (case v of Finite x \<Rightarrow> min 5000 (max 100 (round x)) | _ \<Rightarrow> (250::int)) \<le> 5000" for v
      by (simp split: jsnumber.splits)
    moreover
    have "100 \<le> (case v of Finite x \<Rightarrow> min 10000 (max 100 (round x)) | _ \<Rightarrow> (1000::int)) \<and>
        (case v of Finite x \<Rightarrow> min 10000 (max 100 (round x)) | _ \<Rightarrow> (1000::int)) \<le> 10000" for v
      by (simp split: jsnumber.splits)
    moreover
    have "0 \<le> (case v of Finite x \<Rightarrow> min 90 (max 0 x) | _ \<Rightarrow> (0::real)) \<and>
        (case v of Finite x \<Rightarrow> min 90 (max 0 x) | _ \<Rightarrow> (0::real)) \<le> 90" for v
      by (simp split: jsnumber.splits)
    ultimately show ?thesis
      using z n d rd t by blast
  qed
qed (simp_all add: toNumber_def)

text \<open>
  The values of the repository's own test: out-of-range numbers are clamped,
  and the empty object with a required entity is refused.  So is an entity that
  is a single no-break space; a zoom level of \<open>null\<close> is read as 0 and clamped to
  3, and an infinite frame count takes the default.
\<close>

theorem normalizeConfig_ranges_witness:
  "normalizeConfig ''custom:bom-raster-radar-card'' noNumber emptyInput \<lparr>requireEntity = Some True\<rparr>
     = Inl RequiredConfigurationMissing \<and>
   normalizeConfig ''custom:bom-raster-radar-card'' noNumber blankEntityInput \<lparr>requireEntity = Some True\<rparr>
     = Inl RequiredConfigurationMissing \<and>
   map_sum id zoom_level
     (normalizeConfig ''custom:bom-raster-radar-card'' noNumber outOfRangeInput \<lparr>requireEntity = Some True\<rparr>)
     = Inr (Some 10) \<and>
   map_sum id frame_count
     (normalizeConfig ''custom:bom-raster-radar-card'' noNumber outOfRangeInput \<lparr>requireEntity = Some True\<rparr>)
     = Inr (Some 1) \<and>
   map_sum id overlay_transparency
     (normalizeConfig ''custom:bom-raster-radar-card'' noNumber outOfRangeInput \<lparr>requireEntity = Some True\<rparr>)
     = Inr (Some 90) \<and>
   map_sum id zoom_level
     (normalizeConfig ''custom:bom-raster-radar-card'' noNumber nullZoomInput \<lparr>requireEntity = Some True\<rparr>)
     = Inr (Some 3) \<and>
   map_sum id frame_count
     (normalizeConfig ''custom:bom-raster-radar-card'' noNumber nullZoomInput \<lparr>requireEntity = Some True\<rparr>)
     = Inr (Some 7)"
proof -
  let ?t = "''custom:bom-raster-radar-card''" and ?o = "\<lparr>requireEntity = Some True\<rparr>"
  have s1: "trim ''person.scott'' = ''person.scott''"
    and s2: "trim '' person.scott '' = ''person.scott''"
    and s3: "trim [CHR 0xC2, CHR 0xA0] = []"
    by code_simp+
  have e: "normalizeConfig ?t noNumber emptyInput ?o = Inl RequiredConfigurationMissing"
    using normalizeConfig_ranges [of ?t noNumber emptyInput ?o, THEN conjunct1]
    by (simp add: emptyInput_def)
  have b: "normalizeConfig ?t noNumber blankEntityInput ?o = Inl RequiredConfigurationMissing"
    using normalizeConfig_ranges [of ?t noNumber blankEntityInput ?o, THEN conjunct1]
    by (simp add: blankEntityInput_def emptyInput_def s3)
  have "normalizeConfig ?t noNumber outOfRangeInput ?o \<noteq> Inl RequiredConfigurationMissing"
    using normalizeConfig_ranges [of ?t noNumber outOfRangeInput ?o, THEN conjunct1]
    by (simp add: outOfRangeInput_def emptyInput_def s1)
  then obtain c where c: "normalizeConfig ?t noNumber outOfRangeInput ?o = Inr c"
    by (cases "normalizeConfig ?t noNumber outOfRangeInput ?o") (auto, metis ConfigError.exhaust)
  from normalizeConfig_ranges [of ?t noNumber outOfRangeInput ?o, THEN conjunct2, THEN conjunct1,
      THEN spec, THEN mp, OF c]
  have oc: "zoom_level c = Some 10" "frame_count c = Some 1" "overlay_transparency c = Some 90"
    by (simp_all add: outOfRangeInput_def emptyInput_def toNumber_def)
  have "normalizeConfig ?t noNumber nullZoomInput ?o \<noteq> Inl RequiredConfigurationMissing"
    using normalizeConfig_ranges [of ?t noNumber nullZoomInput ?o, THEN conjunct1]
    by (simp add: nullZoomInput_def emptyInput_def s2)
  then obtain c' where c': "normalizeConfig ?t noNumber nullZoomInput ?o = Inr c'"
    by (cases "normalizeConfig ?t noNumber nullZoomInput ?o") (auto, metis ConfigError.exhaust)
  from normalizeConfig_ranges [of ?t noNumber nullZoomInput ?o, THEN conjunct2, THEN conjunct1,
      THEN spec, THEN mp, OF c']
  have nc: "zoom_level c' = Some 3" "frame_count c' = Some 7"
    by (simp_all add: nullZoomInput_def emptyInput_def toNumber_def)
  from e b c oc c' nc show ?thesis by simp
qed

text \<open>
  The transparency is not rounded: 12.5 stays 12.5, where rounding gives 13;
  the zoom level 7.5 of the same input is rounded to 8.
\<close>

theorem normalizeConfig_transparency_counterexample:
  "map_sum id overlay_transparency
     (normalizeConfig ''custom:bom-raster-radar-card'' noNumber fractionalInput \<lparr>requireEntity = Some True\<rparr>)
     = Inr (Some 12.5) \<and>
   round (12.5 :: real) = 13 \<and>
   map_sum id zoom_level
     (normalizeConfig ''custom:bom-raster-radar-card'' noNumber fractionalInput \<lparr>requireEntity = Some True\<rparr>)
     = Inr (Some 8)"
proof -
  have s: "sanitizeEntity (Text ''person.scott'') = ''person.scott''"
    by code_simp
  show ?thesis
    by (simp add: normalizeConfig_def Let_def fractionalInput_def emptyInput_def s
        toFiniteNumber_def toNumber_def clamp_def round_def)
qed

end
